theory Spec2Isabelle
  imports Main
begin

section \<open>Time, exceptions and Python truthiness\<close>

text \<open>
  A \<open>datetime\<close> is modelled as an integer number of seconds since the epoch and a
  \<open>timedelta\<close> as an integer number of seconds; the sub-second part of
  \<open>datetime.utcnow()\<close> is dropped. A \<open>datetime\<close> lies between \<open>datetime.min\<close> (year 1)
  and \<open>datetime.max\<close> (the last second of year 9999).
\<close>

type_synonym time = int

definition datetime_min :: time where
  "datetime_min = - 62135596800"

definition datetime_max :: time where
  "datetime_max = 253402300799"

definition hour :: int where
  "hour = 3600"

definition minute :: int where
  "minute = 60"

text \<open>
  Python exceptions. \<open>asyncio.CancelledError\<close> derives from \<open>BaseException\<close>, not
  from \<open>Exception\<close>, so an \<open>except Exception\<close> clause lets it pass; every other
  exception of the model is an \<open>Exception\<close> and carries its message (\<open>str(e)\<close>).
\<close>

datatype exn =
    CancelledError
  | ValueError string
  | IndexError string
  | OverflowError string
  | OtherException string

fun is_Exception :: "exn \<Rightarrow> bool" where
  "is_Exception CancelledError = False"
| "is_Exception (ValueError m) = True"
| "is_Exception (IndexError m) = True"
| "is_Exception (OverflowError m) = True"
| "is_Exception (OtherException m) = True"

fun exn_str :: "exn \<Rightarrow> string" where
  "exn_str CancelledError = []"
| "exn_str (ValueError m) = m"
| "exn_str (IndexError m) = m"
| "exn_str (OverflowError m) = m"
| "exn_str (OtherException m) = m"

text \<open>\<open>str(n)\<close> of an integer, for the messages that print one.\<close>

fun str_nat :: "nat \<Rightarrow> string" where
  "str_nat n =
     (if n < 10 then [''0123456789'' ! n]
      else str_nat (n div 10) @ [''0123456789'' ! (n mod 10)])"

definition str_int :: "int \<Rightarrow> string" where
  "str_int i = (if i < 0 then CHR ''-'' # str_nat (nat (- i)) else str_nat (nat i))"

text \<open>
  \<open>now + timedelta(seconds=delay)\<close> for an integer \<open>delay\<close>. The constructor of
  \<open>timedelta\<close> splits the seconds into days and a rest and refuses more than 999999999
  days either way; the sum is refused when it is not a \<open>datetime\<close>. Both raise
  \<open>OverflowError\<close>, with the messages of CPython's \<open>datetime\<close> module.
\<close>

definition add_seconds :: "time \<Rightarrow> int \<Rightarrow> exn + time" where
  "add_seconds now delay =
     (let days = delay div 86400 in
      if days < - 2147483648 \<or> 2147483647 < days
      then Inl (OverflowError ''Python int too large to convert to C int'')
      else if days < - 999999999 \<or> 999999999 < days
      then Inl (OverflowError (''days='' @ str_int days @
                  ''; must have magnitude <= 999999999''))
      else if now + delay < datetime_min \<or> datetime_max < now + delay
      then Inl (OverflowError ''date value out of range'')
      else Inr (now + delay))"

text \<open>
  \<open>t.timestamp()\<close> of a \<open>datetime\<close> without time zone, as \<open>datetime.utcnow()\<close> returns
  them. Python reads such a value as local time; the process is taken to run in UTC, so
  the timestamp is the value itself. The conversion looks one day back and raises
  \<open>ValueError\<close> within the first day of year 1.
\<close>

definition timestamp :: "time \<Rightarrow> exn + time" where
  "timestamp t =
     (if t < datetime_min + 86400 then Inl (ValueError ''year 0 is out of range'')
      else Inr t)"

text \<open>\<open>x or d\<close> on an optional string: \<open>None\<close> and the empty string are falsy.\<close>

definition str_or :: "string option \<Rightarrow> string \<Rightarrow> string" where
  "str_or x d = (case x of None \<Rightarrow> d | Some s \<Rightarrow> if s = [] then d else s)"

text \<open>Truthiness of an optional string and of an optional integer.\<close>

definition truthy_str :: "string option \<Rightarrow> bool" where
  "truthy_str x = (case x of None \<Rightarrow> False | Some s \<Rightarrow> s \<noteq> [])"

definition truthy_int :: "int option \<Rightarrow> bool" where
  "truthy_int x = (case x of None \<Rightarrow> False | Some n \<Rightarrow> n \<noteq> 0)"

section \<open>models.py\<close>

text \<open>
  \<open>EmailMessage\<close>: the fields the queue, the sender's control flow and the worker read.
  The recipients, attachments, headers and template data are read only by the MIME
  construction and the SMTP session, which are parameters of the sender below.
\<close>

record email_message =
  subject :: string
  body :: "string option"
  html :: "string option"
  template_name :: "string option"
  smtp_account :: "string option"

datatype email_status = PENDING | QUEUED | SENDING | SENT | FAILED | RETRYING

record email_result =
  status :: email_status
  message_id :: "string option"
  error :: "string option"
  sent_at :: "time option"
  result_retry_count :: int
  result_smtp_account :: "string option"

definition is_success :: "email_result \<Rightarrow> bool" where
  "is_success res = (status res = SENT)"

definition is_failed :: "email_result \<Rightarrow> bool" where
  "is_failed res = (status res = FAILED)"

record queued_email =
  email :: email_message
  queued_at :: time
  retry_count :: int
  last_error :: "string option"
  next_retry_at :: "time option"

section \<open>settings.py\<close>

record smtp_account_settings =
  host :: string
  port :: int
  username :: string
  password :: string
  from_email :: string

record queue_settings =
  max_retries :: int
  retry_delay :: int
  worker_poll_interval :: int
  batch_size :: int

record rate_limit_settings =
  rate_limit_enabled :: bool
  max_emails_per_hour :: int
  max_emails_per_minute :: "int option"

record mail_settings =
  smtp_accounts :: "(string \<times> smtp_account_settings) list"
  default_account :: string
  queue :: queue_settings
  rate_limit :: rate_limit_settings
  templates_enabled :: bool

text \<open>\<open>", ".join(keys)\<close>.\<close>

fun join_comma :: "string list \<Rightarrow> string" where
  "join_comma [] = []"
| "join_comma [k] = k"
| "join_comma (k # ks) = k @ '', '' @ join_comma ks"

text \<open>
  \<open>MailSettings.get_smtp_account\<close>: the dictionary of accounts is an association list in
  insertion order; an unknown name raises \<open>ValueError\<close> with the message of the source.
\<close>

definition get_smtp_account ::
  "mail_settings \<Rightarrow> string option \<Rightarrow> exn + smtp_account_settings" where
  "get_smtp_account cfg account_name =
     (let name = str_or account_name (default_account cfg) in
      case map_of (smtp_accounts cfg) name of
        None \<Rightarrow>
          Inl (ValueError (''SMTP account '' @ [CHR 0x27] @ name @ [CHR 0x27] @
                 '' not found. Available accounts: '' @
                 join_comma (map fst (smtp_accounts cfg))))
      | Some acct \<Rightarrow> Inr acct)"

section \<open>The Redis store\<close>

text \<open>
  A Redis list is a HOL list whose head is the left end. A sorted set maps each member to
  one score: it is an association list with distinct members, and a range query sorts
  the selected entries by score (entries of equal score keep the order of the
  representation; Redis orders them by the bytes of the member).
\<close>

definition lpush :: "'a \<Rightarrow> 'a list \<Rightarrow> 'a list" where
  "lpush x xs = x # xs"

definition rpush :: "'a \<Rightarrow> 'a list \<Rightarrow> 'a list" where
  "rpush x xs = xs @ [x]"

definition rpop :: "'a list \<Rightarrow> 'a option \<times> 'a list" where
  "rpop xs = (if xs = [] then (None, []) else (Some (last xs), butlast xs))"

type_synonym 'a zset = "('a \<times> time) list"

definition in_score_range :: "time \<Rightarrow> time \<Rightarrow> 'a \<times> time \<Rightarrow> bool" where
  "in_score_range lo hi e = (lo \<le> snd e \<and> snd e \<le> hi)"

definition zadd :: "'a \<Rightarrow> time \<Rightarrow> 'a zset \<Rightarrow> 'a zset" where
  "zadd m s z = (m, s) # filter (\<lambda>e. fst e \<noteq> m) z"

definition zrangebyscore :: "time \<Rightarrow> time \<Rightarrow> 'a zset \<Rightarrow> 'a list" where
  "zrangebyscore lo hi z = map fst (sort_key snd (filter (in_score_range lo hi) z))"

definition zremrangebyscore :: "time \<Rightarrow> time \<Rightarrow> 'a zset \<Rightarrow> 'a zset" where
  "zremrangebyscore lo hi z = filter (\<lambda>e. \<not> in_score_range lo hi e) z"

record redis_store =
  queue_list :: "queued_email list"
  retry_set :: "queued_email zset"
  dlq_list :: "queued_email list"

definition empty_store :: redis_store where
  "empty_store = \<lparr>queue_list = [], retry_set = [], dlq_list = []\<rparr>"

section \<open>queue.py: EmailQueue\<close>

text \<open>
  Every operation takes the store and returns it updated; \<open>now\<close> is the value that
  \<open>datetime.utcnow()\<close> returns in the call (for \<open>get_retry_emails\<close>, its timestamp). The
  JSON round trip of a queued email (\<open>model_dump_json\<close>, \<open>model_validate_json\<close>) is the
  identity, and the store is reachable (no operation fails for lack of a connection).
\<close>

definition enqueue :: "time \<Rightarrow> email_message \<Rightarrow> bool \<Rightarrow> redis_store \<Rightarrow> redis_store" where
  "enqueue now em priority r =
     (let queued = \<lparr>email = em, queued_at = now, retry_count = 0,
                     last_error = None, next_retry_at = None\<rparr>
      in if priority then r\<lparr>queue_list := rpush queued (queue_list r)\<rparr>
         else r\<lparr>queue_list := lpush queued (queue_list r)\<rparr>)"

text \<open>
  \<open>dequeue\<close> with \<open>timeout = 0\<close> is \<open>RPOP\<close>. With a positive timeout it is \<open>BRPOP\<close>,
  which pops the same element when the list is not empty; waiting is not modelled.
\<close>

definition dequeue :: "redis_store \<Rightarrow> queued_email option \<times> redis_store" where
  "dequeue r = (case rpop (queue_list r) of (data, rest) \<Rightarrow> (data, r\<lparr>queue_list := rest\<rparr>))"

definition move_to_dlq :: "queued_email \<Rightarrow> redis_store \<Rightarrow> redis_store" where
  "move_to_dlq queued r = r\<lparr>dlq_list := lpush queued (dlq_list r)\<rparr>"

text \<open>
  The backoff of line 152, \<open>retry_delay * (2 ** (retry_count - 1))\<close>. For
  \<open>retry_count \<ge> 1\<close> this is Python's integer arithmetic. For \<open>retry_count \<le> 0\<close>
  Python computes a float (\<open>2 ** -1 = 0.5\<close>), which this definition does not describe:
  the theorems below assume a count that started at 0 or above.
\<close>

definition backoff_delay :: "mail_settings \<Rightarrow> int \<Rightarrow> int" where
  "backoff_delay cfg n = retry_delay (queue cfg) * 2 ^ nat (n - 1)"

text \<open>
  \<open>requeue_for_retry\<close> mutates the queued email in place, so the model returns the
  exception raised, if any, the email as mutated up to that point, and the store. Line
  153 raises \<open>OverflowError\<close> when the retry time is not a \<open>datetime\<close>: the count and
  the error are then already updated, \<open>next_retry_at\<close> is not, and the test on
  \<open>max_retries\<close> is not reached. Line 166 raises \<open>ValueError\<close> when the retry time has
  no timestamp, before the entry is added.
\<close>

definition requeue_for_retry ::
  "mail_settings \<Rightarrow> time \<Rightarrow> queued_email \<Rightarrow> string \<Rightarrow> redis_store
     \<Rightarrow> exn option \<times> queued_email \<times> redis_store" where
  "requeue_for_retry cfg now queued err r =
     (let q1 = queued\<lparr>retry_count := retry_count queued + 1, last_error := Some err\<rparr>;
          delay = backoff_delay cfg (retry_count q1)
      in case add_seconds now delay of
           Inl e \<Rightarrow> (Some e, q1, r)
         | Inr t \<Rightarrow>
             (let q2 = q1\<lparr>next_retry_at := Some t\<rparr>
              in if retry_count q2 \<ge> max_retries (queue cfg)
                 then (None, q2, move_to_dlq q2 r)
                 else (case timestamp t of
                         Inl e \<Rightarrow> (Some e, q2, r)
                       | Inr score \<Rightarrow>
                           (None, q2, r\<lparr>retry_set := zadd q2 score (retry_set r)\<rparr>))))"

text \<open>
  The retry time of attempt \<open>n\<close> at clock value \<open>now\<close> can be represented: the clock
  value and the retry time are \<open>datetime\<close>s, and the retry time has a timestamp.
\<close>

definition retry_time_ok :: "mail_settings \<Rightarrow> time \<Rightarrow> int \<Rightarrow> bool" where
  "retry_time_ok cfg now n =
     (datetime_min \<le> now \<and> now \<le> datetime_max \<and>
      datetime_min + 86400 \<le> now + backoff_delay cfg n \<and>
      now + backoff_delay cfg n \<le> datetime_max)"

text \<open>
  \<open>get_retry_emails\<close> issues two Redis commands, \<open>ZRANGEBYSCORE\<close> and then
  \<open>ZREMRANGEBYSCORE\<close>, with an \<open>await\<close> between them. Each command is atomic in Redis;
  the two are the steps \<open>get_retry_read\<close> and \<open>get_retry_remove\<close>, and
  \<open>get_retry_emails\<close> is the call when no other client's command falls between them.
\<close>

definition get_retry_read :: "time \<Rightarrow> redis_store \<Rightarrow> queued_email list" where
  "get_retry_read now r = zrangebyscore 0 now (retry_set r)"

definition get_retry_remove :: "time \<Rightarrow> redis_store \<Rightarrow> redis_store" where
  "get_retry_remove now r = r\<lparr>retry_set := zremrangebyscore 0 now (retry_set r)\<rparr>"

definition get_retry_emails :: "time \<Rightarrow> redis_store \<Rightarrow> queued_email list \<times> redis_store" where
  "get_retry_emails now r =
     (let results = get_retry_read now r
      in if results = [] then ([], r) else (results, get_retry_remove now r))"

text \<open>
  Callers of the queue: a sequence of \<open>enqueue\<close> calls, each with the clock value it
  reads, the message and the priority flag, and \<open>n\<close> successive \<open>dequeue\<close> calls that
  stop at the first \<open>None\<close>.
\<close>

fun enqueue_all :: "(time \<times> email_message \<times> bool) list \<Rightarrow> redis_store \<Rightarrow> redis_store" where
  "enqueue_all [] r = r"
| "enqueue_all ((now, em, priority) # es) r = enqueue_all es (enqueue now em priority r)"

fun dequeue_n :: "nat \<Rightarrow> redis_store \<Rightarrow> queued_email list \<times> redis_store" where
  "dequeue_n 0 r = ([], r)"
| "dequeue_n (Suc n) r =
     (case dequeue r of
        (None, r') \<Rightarrow> ([], r')
      | (Some queued, r') \<Rightarrow>
          (case dequeue_n n r' of (qs, r'') \<Rightarrow> (queued # qs, r'')))"

text \<open>
  Concurrent callers of \<open>get_retry_emails\<close>. A caller is before its first command, between
  the two commands (holding the clock value it read and the results of the range
  query), or has returned. A schedule names, step by step, the caller whose next
  command Redis executes.
\<close>

datatype caller =
    Start time
  | Between time "queued_email list"
  | Returned "queued_email list"

fun caller_step :: "caller \<Rightarrow> redis_store \<Rightarrow> caller \<times> redis_store" where
  "caller_step (Start now) r =
     (let results = get_retry_read now r
      in if results = [] then (Returned [], r) else (Between now results, r))"
| "caller_step (Between now results) r = (Returned results, get_retry_remove now r)"
| "caller_step (Returned results) r = (Returned results, r)"

fun returned :: "caller \<Rightarrow> queued_email list" where
  "returned (Returned results) = results"
| "returned (Between now results) = []"
| "returned (Start now) = []"

fun run_schedule :: "nat list \<Rightarrow> caller list \<times> redis_store \<Rightarrow> caller list \<times> redis_store" where
  "run_schedule [] st = st"
| "run_schedule (i # sched) (cs, r) =
     (if i < length cs
      then (case caller_step (cs ! i) r of (c', r') \<Rightarrow> run_schedule sched (cs[i := c'], r'))
      else run_schedule sched (cs, r))"

section \<open>sender.py: RateLimiter\<close>

record rate_limiter =
  max_per_hour :: int
  max_per_minute :: "int option"
  hourly_timestamps :: "time list"
  minute_timestamps :: "time list"

definition new_rate_limiter :: "int \<Rightarrow> int option \<Rightarrow> rate_limiter" where
  "new_rate_limiter h m =
     \<lparr>max_per_hour = h, max_per_minute = m, hourly_timestamps = [], minute_timestamps = []\<rparr>"

definition cleanup_timestamps :: "time \<Rightarrow> rate_limiter \<Rightarrow> rate_limiter" where
  "cleanup_timestamps now rl =
     (let hour_ago = now - hour;
          rl1 = rl\<lparr>hourly_timestamps := dropWhile (\<lambda>t. t < hour_ago) (hourly_timestamps rl)\<rparr>
      in if truthy_int (max_per_minute rl1)
         then (let minute_ago = now - minute
               in rl1\<lparr>minute_timestamps :=
                        dropWhile (\<lambda>t. t < minute_ago) (minute_timestamps rl1)\<rparr>)
         else rl1)"

text \<open>
  The two waiting loops of \<open>acquire\<close>. The clock is the one a test mocks: it stands
  still while the code runs and \<open>asyncio.sleep(w)\<close> moves it forward by exactly \<open>w\<close>. Each
  loop returns the exception it raised, if any (reading the first element of an empty
  deque), the limiter and the clock value.
\<close>

function hourly_wait :: "rate_limiter \<Rightarrow> time \<Rightarrow> exn option \<times> rate_limiter \<times> time" where
  "hourly_wait rl now =
     (if max_per_hour rl \<le> int (length (hourly_timestamps rl)) then
        (case hourly_timestamps rl of
           [] \<Rightarrow> (Some (IndexError ''deque index out of range''), rl, now)
         | oldest # rest \<Rightarrow>
             (let wait_until = oldest + hour;
                  wait_seconds = wait_until - now
              in if 0 < wait_seconds
                 then hourly_wait (cleanup_timestamps (now + wait_seconds) rl) (now + wait_seconds)
                 else (None, rl, now)))
      else (None, rl, now))"
  by pat_completeness auto
termination
proof (relation "measure (\<lambda>(rl, now).
    case hourly_timestamps rl of [] \<Rightarrow> 0 | oldest # rest \<Rightarrow> nat (oldest + hour - now))")
  show "wf (measure (\<lambda>(rl, now).
    case hourly_timestamps rl of [] \<Rightarrow> 0 | oldest # rest \<Rightarrow> nat (oldest + hour - now)))"
    by simp
next
  fix rl :: rate_limiter and now oldest :: time and rest wait_until wait_seconds
  assume "hourly_timestamps rl = oldest # rest"
    and "wait_until = oldest + hour" and "wait_seconds = wait_until - now"
    and "0 < wait_seconds"
  then show "((cleanup_timestamps (now + wait_seconds) rl, now + wait_seconds), (rl, now))
    \<in> measure (\<lambda>(rl, now).
        case hourly_timestamps rl of [] \<Rightarrow> 0 | oldest # rest \<Rightarrow> nat (oldest + hour - now))"
    by (simp add: cleanup_timestamps_def Let_def)
qed

function minute_wait :: "rate_limiter \<Rightarrow> time \<Rightarrow> exn option \<times> rate_limiter \<times> time" where
  "minute_wait rl now =
     (case max_per_minute rl of
        None \<Rightarrow> (None, rl, now)
      | Some m \<Rightarrow>
          (if m \<le> int (length (minute_timestamps rl)) then
             (case minute_timestamps rl of
                [] \<Rightarrow> (Some (IndexError ''deque index out of range''), rl, now)
              | oldest # rest \<Rightarrow>
                  (let wait_until = oldest + minute;
                       wait_seconds = wait_until - now
                   in if 0 < wait_seconds
                      then minute_wait (cleanup_timestamps (now + wait_seconds) rl)
                             (now + wait_seconds)
                      else (None, rl, now)))
           else (None, rl, now)))"
  by pat_completeness auto
termination
proof (relation "measure (\<lambda>(rl, now).
    case minute_timestamps rl of [] \<Rightarrow> 0 | oldest # rest \<Rightarrow> nat (oldest + minute - now))")
  show "wf (measure (\<lambda>(rl, now).
    case minute_timestamps rl of [] \<Rightarrow> 0 | oldest # rest \<Rightarrow> nat (oldest + minute - now)))"
    by simp
next
  fix rl :: rate_limiter and now oldest :: time and m rest wait_until wait_seconds
  assume "minute_timestamps rl = oldest # rest"
    and "wait_until = oldest + minute" and "wait_seconds = wait_until - now"
    and "0 < wait_seconds"
  then show "((cleanup_timestamps (now + wait_seconds) rl, now + wait_seconds), (rl, now))
    \<in> measure (\<lambda>(rl, now).
        case minute_timestamps rl of [] \<Rightarrow> 0 | oldest # rest \<Rightarrow> nat (oldest + minute - now))"
    by (simp add: cleanup_timestamps_def Let_def)
qed

text \<open>
  \<open>acquire\<close>: prune, wait on the hourly window, wait on the minute window when one is
  configured, then record the grant at the current clock value. The result carries the
  clock value at the end of the call, which is the timestamp of the grant.
\<close>

definition record_send :: "time \<Rightarrow> rate_limiter \<Rightarrow> rate_limiter" where
  "record_send now rl =
     (let rl1 = rl\<lparr>hourly_timestamps := hourly_timestamps rl @ [now]\<rparr>
      in if truthy_int (max_per_minute rl1)
         then rl1\<lparr>minute_timestamps := minute_timestamps rl1 @ [now]\<rparr>
         else rl1)"

definition acquire :: "rate_limiter \<Rightarrow> time \<Rightarrow> exn option \<times> rate_limiter \<times> time" where
  "acquire rl now =
     (case hourly_wait (cleanup_timestamps now rl) now of
        (Some e, rl1, t1) \<Rightarrow> (Some e, rl1, t1)
      | (None, rl1, t1) \<Rightarrow>
          (if truthy_int (max_per_minute rl1) then
             (case minute_wait rl1 t1 of
                (Some e, rl2, t2) \<Rightarrow> (Some e, rl2, t2)
              | (None, rl2, t2) \<Rightarrow> (None, record_send t2 rl2, t2))
           else (None, record_send t1 rl1, t1)))"

text \<open>
  Successive \<open>acquire\<close> calls: each entry of the list is the clock value at which the
  caller makes the next call, unless the previous call already left the clock later. The
  result lists the grant timestamps in order, and stops at the first exception.
\<close>

fun acquire_seq :: "time list \<Rightarrow> rate_limiter \<Rightarrow> time \<Rightarrow> time list \<times> rate_limiter" where
  "acquire_seq [] rl clock = ([], rl)"
| "acquire_seq (t # ts) rl clock =
     (case acquire rl (max t clock) of
        (Some e, rl', clock') \<Rightarrow> ([], rl')
      | (None, rl', clock') \<Rightarrow>
          (case acquire_seq ts rl' clock' of (grants, rl'') \<Rightarrow> (clock' # grants, rl'')))"

text \<open>The grants that lie in the trailing hour \<open>(now - hour, now]\<close>.\<close>

definition grants_in_last_hour :: "time \<Rightarrow> time list \<Rightarrow> nat" where
  "grants_in_last_hour now grants = length (filter (\<lambda>t. now - hour < t \<and> t \<le> now) grants)"

section \<open>sender.py: EmailSender\<close>

text \<open>
  The template engine, the MIME construction and the SMTP session are the sender's
  collaborators: each is a parameter that returns a value or raises. An \<open>await\<close> inside
  one of them is also where a cancellation of the running task arrives, as
  \<open>CancelledError\<close>.
\<close>

record 'mime transport =
  jinja_render :: "string \<Rightarrow> email_message \<Rightarrow> exn + string"
  build_mime_message :: "email_message \<Rightarrow> smtp_account_settings \<Rightarrow> exn + 'mime"
  send_smtp :: "'mime \<Rightarrow> email_message \<Rightarrow> smtp_account_settings \<Rightarrow> exn + string"

definition ends_with :: "string \<Rightarrow> string \<Rightarrow> bool" where
  "ends_with s suffix =
     (length suffix \<le> length s \<and> drop (length s - length suffix) s = suffix)"

text \<open>
  \<open>_render_template\<close> writes the rendered text into the message it was given, so the model
  returns the message with the outcome. The Jinja environment exists exactly when
  templates are enabled in the configuration.
\<close>

definition render_template ::
  "'mime transport \<Rightarrow> mail_settings \<Rightarrow> email_message \<Rightarrow> exn option \<times> email_message" where
  "render_template ext cfg em =
     (if \<not> templates_enabled cfg
      then (Some (ValueError ''Templates are not enabled in configuration''), em)
      else if \<not> truthy_str (template_name em) then (None, em)
      else (case jinja_render ext (str_or (template_name em) []) em of
              Inl e \<Rightarrow> (Some e, em)
            | Inr rendered \<Rightarrow>
                if ends_with (str_or (template_name em) []) ''.html''
                then (None, em\<lparr>html := Some rendered\<rparr>)
                else (None, em\<lparr>body := Some rendered\<rparr>)))"

text \<open>
  The body of the \<open>try\<close> block of \<open>send_email\<close>, up to the message id: the account lookup,
  the rendering, the MIME construction and the SMTP session, each of which may raise.
\<close>

definition send_attempt ::
  "'mime transport \<Rightarrow> mail_settings \<Rightarrow> email_message \<Rightarrow> (exn + string) \<times> email_message" where
  "send_attempt ext cfg em =
     (case get_smtp_account cfg (smtp_account em) of
        Inl e \<Rightarrow> (Inl e, em)
      | Inr acct \<Rightarrow>
          (case (if truthy_str (template_name em) then render_template ext cfg em
                 else (None, em)) of
             (Some e, em1) \<Rightarrow> (Inl e, em1)
           | (None, em1) \<Rightarrow>
               (case build_mime_message ext em1 acct of
                  Inl e \<Rightarrow> (Inl e, em1)
                | Inr mime \<Rightarrow>
                    (case send_smtp ext mime em1 acct of
                       Inl e \<Rightarrow> (Inl e, em1)
                     | Inr mid \<Rightarrow> (Inr mid, em1)))))"

text \<open>
  The \<open>try\<close> statement of \<open>send_email\<close>, entered once the permit is acquired:
  \<open>except Exception\<close> turns an exception into a FAILED result and lets
  \<open>CancelledError\<close> pass.
\<close>

definition send_guarded ::
  "'mime transport \<Rightarrow> mail_settings \<Rightarrow> time \<Rightarrow> email_message
     \<Rightarrow> (exn + email_result) \<times> email_message" where
  "send_guarded ext cfg now em =
     (case send_attempt ext cfg em of
        (Inr mid, em1) \<Rightarrow>
          (Inr \<lparr>status = SENT, message_id = Some mid, error = None, sent_at = Some now,
                result_retry_count = 0,
                result_smtp_account = Some (str_or (smtp_account em1) (default_account cfg))\<rparr>,
           em1)
      | (Inl e, em1) \<Rightarrow>
          if is_Exception e
          then (Inr \<lparr>status = FAILED, message_id = None, error = Some (exn_str e),
                     sent_at = None, result_retry_count = 0,
                     result_smtp_account =
                       Some (str_or (smtp_account em1) (default_account cfg))\<rparr>,
                em1)
          else (Inl e, em1))"

record email_sender =
  limiter :: "rate_limiter option"

definition new_sender :: "mail_settings \<Rightarrow> email_sender" where
  "new_sender cfg =
     \<lparr>limiter =
        (if rate_limit_enabled (rate_limit cfg)
         then Some (new_rate_limiter (max_emails_per_hour (rate_limit cfg))
                      (max_emails_per_minute (rate_limit cfg)))
         else None)\<rparr>"

text \<open>
  \<open>send_email\<close>: the permit first, outside the \<open>try\<close>, then the guarded attempt. The result
  carries the message as mutated, the sender and the clock value at the end of the call.
\<close>

definition send_email ::
  "'mime transport \<Rightarrow> mail_settings \<Rightarrow> email_sender \<Rightarrow> time \<Rightarrow> email_message
     \<Rightarrow> (exn + email_result) \<times> email_message \<times> email_sender \<times> time" where
  "send_email ext cfg sender now em =
     (case limiter sender of
        None \<Rightarrow>
          (case send_guarded ext cfg now em of (res, em1) \<Rightarrow> (res, em1, sender, now))
      | Some rl \<Rightarrow>
          (case acquire rl now of
             (Some e, rl1, t1) \<Rightarrow> (Inl e, em, sender\<lparr>limiter := Some rl1\<rparr>, t1)
           | (None, rl1, t1) \<Rightarrow>
               (case send_guarded ext cfg t1 em of
                  (res, em1) \<Rightarrow> (res, em1, sender\<lparr>limiter := Some rl1\<rparr>, t1))))"

section \<open>worker.py: EmailWorker\<close>

text \<open>
  The worker is constructed with its sender. The sender and the clock are the worker's
  world \<open>'w\<close>: \<open>send\<close> is \<open>sender.send_email\<close> (it returns the outcome, the message as
  mutated and the world), \<open>utcnow\<close> reads the clock and \<open>sleep\<close> is \<open>asyncio.sleep\<close>.
\<close>

record 'w worker_env =
  send :: "'w \<Rightarrow> email_message \<Rightarrow> (exn + email_result) \<times> email_message \<times> 'w"
  utcnow :: "'w \<Rightarrow> time"
  sleep :: "int \<Rightarrow> 'w \<Rightarrow> 'w"

text \<open>The worker with an \<open>EmailSender\<close> over a transport, under the mocked clock.\<close>

definition sender_env ::
  "'mime transport \<Rightarrow> mail_settings \<Rightarrow> (email_sender \<times> time) worker_env" where
  "sender_env ext cfg =
     \<lparr>send = (\<lambda>w em. case send_email ext cfg (fst w) (snd w) em of
                (res, em1, sender1, t1) \<Rightarrow> (res, em1, (sender1, t1))),
      utcnow = snd,
      sleep = (\<lambda>d w. (fst w, snd w + max d 0))\<rparr>"

text \<open>
  The log lines that tell in which order items are taken up: \<open>Retrying email\<close> in
  \<open>_process_retry_queue\<close> and \<open>Dequeued email\<close> in \<open>dequeue\<close>.
\<close>

datatype event = Retrying queued_email | Dequeued queued_email

record 'w sys =
  store :: redis_store
  world :: 'w
  worker_log :: "event list"

text \<open>
  \<open>_send_email\<close>. The \<open>except Exception\<close> clause requeues the item with the text of the
  exception; an exception it raises itself leaves the function. \<open>CancelledError\<close>
  passes the clause.
\<close>

definition send_email_handler ::
  "'w worker_env \<Rightarrow> mail_settings \<Rightarrow> exn \<Rightarrow> queued_email \<Rightarrow> 'w sys \<Rightarrow> exn option \<times> 'w sys" where
  "send_email_handler env cfg e queued s =
     (if is_Exception e
      then (case requeue_for_retry cfg (utcnow env (world s)) queued (exn_str e) (store s) of
              (x, q1, r1) \<Rightarrow> (x, s\<lparr>store := r1\<rparr>))
      else (Some e, s))"

text \<open>
  The \<open>try\<close> block: the send, and for a failed result the requeue. The requeue stands
  inside the \<open>try\<close>, so an exception it raises reaches the handler with the item as the
  first requeue left it.
\<close>

definition worker_send_email ::
  "'w worker_env \<Rightarrow> mail_settings \<Rightarrow> queued_email \<Rightarrow> 'w sys \<Rightarrow> exn option \<times> 'w sys" where
  "worker_send_email env cfg queued s =
     (case send env (world s) (email queued) of
        (Inr result, em1, w1) \<Rightarrow>
          if is_success result then (None, s\<lparr>world := w1\<rparr>)
          else (case requeue_for_retry cfg (utcnow env w1) (queued\<lparr>email := em1\<rparr>)
                       (str_or (error result) ''Unknown error'') (store s) of
                  (None, q1, r1) \<Rightarrow> (None, s\<lparr>world := w1, store := r1\<rparr>)
                | (Some e, q1, r1) \<Rightarrow>
                    send_email_handler env cfg e q1 (s\<lparr>world := w1, store := r1\<rparr>))
      | (Inl e, em1, w1) \<Rightarrow>
          send_email_handler env cfg e (queued\<lparr>email := em1\<rparr>) (s\<lparr>world := w1\<rparr>))"

text \<open>The \<open>for\<close> loop of \<open>_process_retry_queue\<close>.\<close>

fun retry_loop ::
  "'w worker_env \<Rightarrow> mail_settings \<Rightarrow> queued_email list \<Rightarrow> 'w sys \<Rightarrow> exn option \<times> 'w sys" where
  "retry_loop env cfg [] s = (None, s)"
| "retry_loop env cfg (queued # rest) s =
     (case worker_send_email env cfg queued
             (s\<lparr>worker_log := worker_log s @ [Retrying queued]\<rparr>) of
        (Some e, s1) \<Rightarrow> (Some e, s1)
      | (None, s1) \<Rightarrow> retry_loop env cfg rest s1)"

text \<open>
  \<open>_process_retry_queue\<close>: \<open>get_retry_emails\<close> first takes the timestamp of the clock
  value, which may raise, then queries the retry set.
\<close>

definition process_retry_queue ::
  "'w worker_env \<Rightarrow> mail_settings \<Rightarrow> 'w sys \<Rightarrow> exn option \<times> 'w sys" where
  "process_retry_queue env cfg s =
     (case timestamp (utcnow env (world s)) of
        Inl e \<Rightarrow> (Some e, s)
      | Inr now \<Rightarrow>
          (case get_retry_emails now (store s) of
             (retry_emails, r1) \<Rightarrow> retry_loop env cfg retry_emails (s\<lparr>store := r1\<rparr>)))"

text \<open>The \<open>for _ in range(batch_size)\<close> loop of \<open>_process_main_queue\<close>.\<close>

fun main_loop ::
  "'w worker_env \<Rightarrow> mail_settings \<Rightarrow> nat \<Rightarrow> 'w sys \<Rightarrow> exn option \<times> 'w sys" where
  "main_loop env cfg 0 s = (None, s)"
| "main_loop env cfg (Suc n) s =
     (case dequeue (store s) of
        (None, r1) \<Rightarrow> (None, s\<lparr>store := r1\<rparr>)
      | (Some queued, r1) \<Rightarrow>
          (case worker_send_email env cfg queued
                  (s\<lparr>store := r1, worker_log := worker_log s @ [Dequeued queued]\<rparr>) of
             (Some e, s1) \<Rightarrow> (Some e, s1)
           | (None, s1) \<Rightarrow> main_loop env cfg n s1))"

definition process_main_queue ::
  "'w worker_env \<Rightarrow> mail_settings \<Rightarrow> 'w sys \<Rightarrow> exn option \<times> 'w sys" where
  "process_main_queue env cfg s = main_loop env cfg (nat (batch_size (queue cfg))) s"

text \<open>
  One pass through the body of the \<open>while\<close> loop of \<open>_process_loop\<close>: the retry queue, the
  main queue, the sleep, and the two \<open>except\<close> clauses. \<open>Break\<close> leaves the loop.
\<close>

datatype loop_ctl = Continue | Break

definition poll_handler ::
  "'w worker_env \<Rightarrow> mail_settings \<Rightarrow> exn \<Rightarrow> 'w sys \<Rightarrow> loop_ctl \<times> 'w sys" where
  "poll_handler env cfg e s =
     (if is_Exception e
      then (Continue, s\<lparr>world := sleep env (worker_poll_interval (queue cfg)) (world s)\<rparr>)
      else (Break, s))"

definition poll_cycle :: "'w worker_env \<Rightarrow> mail_settings \<Rightarrow> 'w sys \<Rightarrow> loop_ctl \<times> 'w sys" where
  "poll_cycle env cfg s =
     (case process_retry_queue env cfg s of
        (Some e, s1) \<Rightarrow> poll_handler env cfg e s1
      | (None, s1) \<Rightarrow>
          (case process_main_queue env cfg s1 of
             (Some e, s2) \<Rightarrow> poll_handler env cfg e s2
           | (None, s2) \<Rightarrow>
               (Continue,
                s2\<lparr>world := sleep env (worker_poll_interval (queue cfg)) (world s2)\<rparr>)))"

text \<open>
  What the sender does along a run. The worker hands the items of a list to the sender
  one after the other. \<open>world_after\<close> is the world after the last send. \<open>failures\<close> lists,
  for each send that did not succeed, what the worker then hands to \<open>requeue_for_retry\<close>:
  the item with the message as the send left it, the error text and the clock value.
  \<open>requeue_all\<close> requeues such a list, one item after the other, and \<open>failures_ok\<close> says
  of each that its count is not negative and its retry time can be represented.
\<close>

fun world_after :: "'w worker_env \<Rightarrow> 'w \<Rightarrow> queued_email list \<Rightarrow> 'w" where
  "world_after env w [] = w"
| "world_after env w (q # qs) = world_after env (snd (snd (send env w (email q)))) qs"

fun failures ::
  "'w worker_env \<Rightarrow> 'w \<Rightarrow> queued_email list \<Rightarrow> (queued_email \<times> string \<times> time) list" where
  "failures env w [] = []"
| "failures env w (q # qs) =
     (case send env w (email q) of
        (Inr result, em1, w1) \<Rightarrow>
          (if is_success result then []
           else [(q\<lparr>email := em1\<rparr>, str_or (error result) ''Unknown error'',
                  utcnow env w1)]) @ failures env w1 qs
      | (Inl e, em1, w1) \<Rightarrow>
          (q\<lparr>email := em1\<rparr>, exn_str e, utcnow env w1) # failures env w1 qs)"

definition requeue_all ::
  "mail_settings \<Rightarrow> (queued_email \<times> string \<times> time) list \<Rightarrow> redis_store \<Rightarrow> redis_store" where
  "requeue_all cfg fs r =
     foldl (\<lambda>r1 f. snd (snd (requeue_for_retry cfg (snd (snd f)) (fst f) (fst (snd f)) r1)))
       r fs"

definition failures_ok :: "mail_settings \<Rightarrow> (queued_email \<times> string \<times> time) list \<Rightarrow> bool" where
  "failures_ok cfg fs =
     list_all (\<lambda>f. 0 \<le> retry_count (fst f) \<and>
                  retry_time_ok cfg (snd (snd f)) (retry_count (fst f) + 1)) fs"

text \<open>
  The worker object. \<open>task\<close> is \<open>self._task\<close>: where the processing task is suspended when
  \<open>stop\<close> is called (in the sleep between cycles, or in the send of an item it has
  popped), or that it has ended. \<open>ops\<close> lists the operations \<open>stop\<close> performs.
\<close>

datatype task = Sleeping | Sending queued_email | Done

datatype worker_op = LogInfo string | TaskCancel | TaskAwait | RedisClose | PoolDisconnect

record 'w email_worker =
  running :: bool
  task :: "task option"
  redis_conn :: bool
  redis_pool :: bool
  sys :: "'w sys"
  ops :: "worker_op list"

text \<open>
  \<open>task.cancel()\<close> raises \<open>CancelledError\<close> at the \<open>await\<close> where the task is suspended, and
  the task runs on from there: a task suspended in a send resumes \<open>_send_email\<close> with the
  send raising \<open>CancelledError\<close>; the processing loop catches it and ends.
\<close>

definition cancelled :: "'w worker_env \<Rightarrow> 'w worker_env" where
  "cancelled env = env\<lparr>send := (\<lambda>w em. (Inl CancelledError, em, w))\<rparr>"

definition cancel_task ::
  "'w worker_env \<Rightarrow> mail_settings \<Rightarrow> task \<Rightarrow> 'w sys \<Rightarrow> task \<times> 'w sys" where
  "cancel_task env cfg t s =
     (case t of
        Sleeping \<Rightarrow> (Done, s)
      | Sending queued \<Rightarrow> (Done, snd (worker_send_email (cancelled env) cfg queued s))
      | Done \<Rightarrow> (Done, s))"

definition queue_disconnect :: "'w email_worker \<Rightarrow> 'w email_worker" where
  "queue_disconnect wk =
     (let wk1 = (if redis_conn wk
                 then wk\<lparr>redis_conn := False, ops := ops wk @ [RedisClose]\<rparr> else wk);
          wk2 = (if redis_pool wk1
                 then wk1\<lparr>redis_pool := False, ops := ops wk1 @ [PoolDisconnect]\<rparr> else wk1)
      in wk2\<lparr>ops := ops wk2 @ [LogInfo ''Disconnected from Redis'']\<rparr>)"

definition stop :: "'w worker_env \<Rightarrow> mail_settings \<Rightarrow> 'w email_worker \<Rightarrow> 'w email_worker" where
  "stop env cfg wk =
     (if \<not> running wk then wk
      else
        (let wk1 = wk\<lparr>running := False,
                       ops := ops wk @ [LogInfo ''Stopping email worker...'']\<rparr>;
             wk2 = (case task wk1 of
                      None \<Rightarrow> wk1
                    | Some t \<Rightarrow>
                        (case cancel_task env cfg t (sys wk1) of
                           (t1, s1) \<Rightarrow>
                             wk1\<lparr>task := Some t1, sys := s1,
                                  ops := ops wk1 @ [TaskCancel, TaskAwait]\<rparr>));
             wk3 = queue_disconnect wk2
         in wk3\<lparr>ops := ops wk3 @ [LogInfo ''Email worker stopped'']\<rparr>))"

section \<open>Example data\<close>

definition cfg0 :: mail_settings where
  "cfg0 =
     \<lparr>smtp_accounts = [(''default'', \<lparr>host = ''smtp.example.com'', port = 587,
          username = ''user'', password = ''secret'', from_email = ''noreply@example.com''\<rparr>)],
      default_account = ''default'',
      queue = \<lparr>max_retries = 3, retry_delay = 300, worker_poll_interval = 1, batch_size = 2\<rparr>,
      rate_limit = \<lparr>rate_limit_enabled = True, max_emails_per_hour = 100,
                    max_emails_per_minute = None\<rparr>,
      templates_enabled = True\<rparr>"

definition with_max_retries :: "int \<Rightarrow> mail_settings \<Rightarrow> mail_settings" where
  "with_max_retries n cfg = cfg\<lparr>queue := (queue cfg)\<lparr>max_retries := n\<rparr>\<rparr>"

definition with_retry_delay :: "int \<Rightarrow> mail_settings \<Rightarrow> mail_settings" where
  "with_retry_delay d cfg = cfg\<lparr>queue := (queue cfg)\<lparr>retry_delay := d\<rparr>\<rparr>"

definition mail :: "string \<Rightarrow> email_message" where
  "mail s = \<lparr>subject = s, body = Some ''text'', html = None, template_name = None,
             smtp_account = None\<rparr>"

definition item :: "string \<Rightarrow> time \<Rightarrow> queued_email" where
  "item s t = \<lparr>email = mail s, queued_at = t, retry_count = 0, last_error = None,
               next_retry_at = None\<rparr>"

definition ext_ok :: "unit transport" where
  "ext_ok =
     \<lparr>jinja_render = (\<lambda>name em. Inr ''rendered''),
      build_mime_message = (\<lambda>em acct. Inr ()),
      send_smtp = (\<lambda>mime em acct. Inr ''id-1'')\<rparr>"

definition ext_refused :: "unit transport" where
  "ext_refused = ext_ok\<lparr>send_smtp := (\<lambda>mime em acct. Inl (OtherException ''refused''))\<rparr>"


definition sys0 :: "redis_store \<Rightarrow> time \<Rightarrow> (email_sender \<times> time) sys" where
  "sys0 r t = \<lparr>store = r, world = (new_sender cfg0, t), worker_log = []\<rparr>"

text \<open>A transport whose SMTP session refuses the messages R2, R3 and B.\<close>

definition ext_some :: "unit transport" where
  "ext_some =
     ext_ok\<lparr>send_smtp :=
       (\<lambda>mime em acct.
          if subject em = ''R2'' \<or> subject em = ''R3'' \<or> subject em = ''B''
          then Inl (OtherException ''refused'') else Inr ''id-1'')\<rparr>"

text \<open>
  A store with three items in the main list (A the oldest) and four entries in the retry
  set, three of them due at clock value 100; R3 has failed twice before.
\<close>

definition store3 :: redis_store where
  "store3 =
     \<lparr>queue_list = [item ''C'' 6, item ''B'' 5, item ''A'' 4],
      retry_set = [(item ''R1'' 1, 10), (item ''R2'' 2, 20),
                   ((item ''R3'' 3)\<lparr>retry_count := 2\<rparr>, 30), (item ''R4'' 7, 500)],
      dlq_list = []\<rparr>"

definition worker0 :: "bool \<Rightarrow> task option \<Rightarrow> (email_sender \<times> time) email_worker" where
  "worker0 run t =
     \<lparr>running = run, task = t, redis_conn = True, redis_pool = True,
      sys = sys0 empty_store 0, ops = []\<rparr>"

section \<open>The retry policy\<close>

lemma add_seconds_result:
  "add_seconds now d = Inr t \<Longrightarrow> t = now + d \<and> datetime_min \<le> t \<and> t \<le> datetime_max"
  by (auto simp: add_seconds_def Let_def split: if_splits)

lemma add_seconds_raises:
  "add_seconds now d = Inl e \<Longrightarrow> \<exists>m. e = OverflowError m"
  by (auto simp: add_seconds_def Let_def split: if_splits)

lemma add_seconds_in_range:
  assumes "datetime_min \<le> now" and "now \<le> datetime_max"
    and "datetime_min \<le> now + d" and "now + d \<le> datetime_max"
  shows "add_seconds now d = Inr (now + d)"
proof -
  have "- 315537897599 \<le> d \<and> d \<le> 315537897599"
    using assms by (simp add: datetime_min_def datetime_max_def)
  then have "- 999999999 \<le> d div 86400 \<and> d div 86400 \<le> 999999999"
    by arith
  then show ?thesis
    using assms(3,4) by (simp add: add_seconds_def Let_def)
qed

lemma add_seconds_out_of_range:
  assumes "now + d < datetime_min \<or> datetime_max < now + d"
  shows "\<exists>m. add_seconds now d = Inl (OverflowError m)"
proof (cases "add_seconds now d")
  case (Inl e)
  then show ?thesis
    using add_seconds_raises [of now d e] by simp
next
  case (Inr t)
  then show ?thesis
    using add_seconds_result [of now d t] assms by simp
qed

lemma requeue_for_retry_count:
  "retry_count (fst (snd (requeue_for_retry cfg now queued err r))) = retry_count queued + 1 \<and>
   last_error (fst (snd (requeue_for_retry cfg now queued err r))) = Some err \<and>
   email (fst (snd (requeue_for_retry cfg now queued err r))) = email queued \<and>
   queued_at (fst (snd (requeue_for_retry cfg now queued err r))) = queued_at queued"
  by (simp add: requeue_for_retry_def Let_def split: sum.splits)

lemma requeue_for_retry_frame:
  "queue_list (snd (snd (requeue_for_retry cfg now queued err r))) = queue_list r"
  by (simp add: requeue_for_retry_def move_to_dlq_def Let_def split: sum.splits)

lemma requeue_for_retry_overflow:
  assumes "add_seconds now (backoff_delay cfg (retry_count queued + 1)) = Inl e"
  shows "requeue_for_retry cfg now queued err r =
           (Some e, queued\<lparr>retry_count := retry_count queued + 1, last_error := Some err\<rparr>, r)"
  using assms by (simp add: requeue_for_retry_def Let_def)

lemma requeue_for_retry_dlq:
  assumes "add_seconds now (backoff_delay cfg (retry_count queued + 1)) = Inr t"
    and "max_retries (queue cfg) \<le> retry_count queued + 1"
  shows "requeue_for_retry cfg now queued err r =
           (None,
            queued\<lparr>retry_count := retry_count queued + 1, last_error := Some err,
                   next_retry_at := Some t\<rparr>,
            r\<lparr>dlq_list :=
                 queued\<lparr>retry_count := retry_count queued + 1, last_error := Some err,
                        next_retry_at := Some t\<rparr> # dlq_list r\<rparr>)"
  using assms by (simp add: requeue_for_retry_def Let_def move_to_dlq_def lpush_def)

lemma requeue_for_retry_schedule:
  assumes "add_seconds now (backoff_delay cfg (retry_count queued + 1)) = Inr t"
    and "retry_count queued + 1 < max_retries (queue cfg)"
    and "datetime_min + 86400 \<le> t"
  shows "requeue_for_retry cfg now queued err r =
           (None,
            queued\<lparr>retry_count := retry_count queued + 1, last_error := Some err,
                   next_retry_at := Some t\<rparr>,
            r\<lparr>retry_set :=
                 zadd (queued\<lparr>retry_count := retry_count queued + 1, last_error := Some err,
                              next_retry_at := Some t\<rparr>) t (retry_set r)\<rparr>)"
  using assms by (simp add: requeue_for_retry_def Let_def timestamp_def)

lemma backoff_delay_pos:
  "1 \<le> n \<Longrightarrow> backoff_delay cfg n = retry_delay (queue cfg) * 2 ^ (nat n - 1)"
  by (simp add: backoff_delay_def nat_diff_distrib)

lemma backoff_delay_double:
  "1 \<le> n \<Longrightarrow> backoff_delay cfg (n + 1) = 2 * backoff_delay cfg n"
proof -
  assume "1 \<le> n"
  then have "nat (n + 1 - 1) = Suc (nat (n - 1))"
    by simp
  then show ?thesis
    by (simp add: backoff_delay_def)
qed

text \<open>
  C1, as stated, fails where the retry time leaves the range of \<open>datetime\<close>: with the
  default base delay of 300 seconds the 31st attempt would wait \<open>300 * 2^30\<close> seconds,
  which ends after year 9999. Line 153 raises \<open>OverflowError\<close>, \<open>next_retry_at\<close> is not
  set and the item is not scheduled.
\<close>

theorem next_retry_at_overflow_counterexample:
  "requeue_for_retry cfg0 1000 ((item ''A'' 0)\<lparr>retry_count := 30\<rparr>) ''boom'' empty_store =
     (Some (OverflowError ''date value out of range''),
      (item ''A'' 0)\<lparr>retry_count := 31, last_error := Some ''boom''\<rparr>,
      empty_store) \<and>
   next_retry_at ((item ''A'' 0)\<lparr>retry_count := 31, last_error := Some ''boom''\<rparr>) = None \<and>
   1000 + retry_delay (queue cfg0) * 2 ^ (31 - 1) = (322122548200 :: int)"
  by (simp add: requeue_for_retry_def backoff_delay_def add_seconds_def datetime_min_def
      datetime_max_def cfg0_def item_def empty_store_def Let_def)

text \<open>
  C1, amended. After a failure that brings the attempt count to \<open>n \<ge> 1\<close>, the delay is
  \<open>retry_delay * 2^(n-1)\<close> exactly: the base delay at attempt 1, twice the base at
  attempt 2, doubling from each attempt to the next. When the clock value plus that
  delay is a \<open>datetime\<close>, \<open>next_retry_at\<close> is set to it, and an item that is scheduled
  enters the retry set with that score (a retry time within the first day of year 1 has
  no timestamp). When it is not, \<open>requeue_for_retry\<close> raises \<open>OverflowError\<close>, leaves
  \<open>next_retry_at\<close> as it was and changes nothing in the store.
\<close>

theorem requeue_for_retry_backoff:
  assumes "0 \<le> retry_count queued"
    and "datetime_min \<le> now" and "now \<le> datetime_max"
    and "requeue_for_retry cfg now queued err r = (x, q', r')"
  shows "retry_count q' = retry_count queued + 1 \<and>
         backoff_delay cfg (retry_count q') =
           retry_delay (queue cfg) * 2 ^ (nat (retry_count q') - 1) \<and>
         backoff_delay cfg 1 = retry_delay (queue cfg) \<and>
         backoff_delay cfg 2 = 2 * retry_delay (queue cfg) \<and>
         backoff_delay cfg (retry_count q' + 1) = 2 * backoff_delay cfg (retry_count q') \<and>
         (datetime_min \<le> now + retry_delay (queue cfg) * 2 ^ (nat (retry_count q') - 1) \<and>
          now + retry_delay (queue cfg) * 2 ^ (nat (retry_count q') - 1) \<le> datetime_max \<longrightarrow>
            next_retry_at q' =
              Some (now + retry_delay (queue cfg) * 2 ^ (nat (retry_count q') - 1))) \<and>
         (datetime_min + 86400 \<le>
            now + retry_delay (queue cfg) * 2 ^ (nat (retry_count q') - 1) \<and>
          now + retry_delay (queue cfg) * 2 ^ (nat (retry_count q') - 1) \<le> datetime_max \<and>
          retry_count q' < max_retries (queue cfg) \<longrightarrow>
            x = None \<and>
            (q', now + retry_delay (queue cfg) * 2 ^ (nat (retry_count q') - 1))
              \<in> set (retry_set r')) \<and>
         (now + retry_delay (queue cfg) * 2 ^ (nat (retry_count q') - 1) < datetime_min \<or>
          datetime_max < now + retry_delay (queue cfg) * 2 ^ (nat (retry_count q') - 1) \<longrightarrow>
            (\<exists>m. x = Some (OverflowError m)) \<and> next_retry_at q' = next_retry_at queued \<and>
            r' = r)"
proof -
  define n where "n = retry_count queued + 1"
  define D where "D = retry_delay (queue cfg) * 2 ^ (nat n - 1)"
  have n1: "1 \<le> n"
    using assms(1) by (simp add: n_def)
  have c: "retry_count q' = n"
    using requeue_for_retry_count [of cfg now queued err r] assms(4) by (simp add: n_def)
  have d: "backoff_delay cfg n = D"
    unfolding D_def using n1 by (rule backoff_delay_pos)
  have b1: "backoff_delay cfg 1 = retry_delay (queue cfg)"
    by (simp add: backoff_delay_def)
  have b2: "backoff_delay cfg 2 = 2 * retry_delay (queue cfg)"
    by (simp add: backoff_delay_def)
  have dbl: "backoff_delay cfg (n + 1) = 2 * backoff_delay cfg n"
    using n1 by (rule backoff_delay_double)
  have inr: "next_retry_at q' = Some (now + D) \<and>
      (datetime_min + 86400 \<le> now + D \<and> n < max_retries (queue cfg) \<longrightarrow>
         x = None \<and> (q', now + D) \<in> set (retry_set r'))"
    if "datetime_min \<le> now + D \<and> now + D \<le> datetime_max"
  proof -
    have a: "add_seconds now (backoff_delay cfg (retry_count queued + 1)) = Inr (now + D)"
      using add_seconds_in_range [OF assms(2,3), of D] that d by (simp add: n_def)
    have "next_retry_at q' = Some (now + D)"
      using assms(4) a by (auto simp: requeue_for_retry_def Let_def split: if_splits sum.splits)
    moreover have "x = None \<and> (q', now + D) \<in> set (retry_set r')"
      if "datetime_min + 86400 \<le> now + D \<and> n < max_retries (queue cfg)"
      using requeue_for_retry_schedule [OF a, of err r] that assms(4)
      by (auto simp: n_def zadd_def)
    ultimately show ?thesis
      by blast
  qed
  have out: "(\<exists>m. x = Some (OverflowError m)) \<and> next_retry_at q' = next_retry_at queued \<and> r' = r"
    if "now + D < datetime_min \<or> datetime_max < now + D"
  proof -
    from add_seconds_out_of_range [OF that] obtain m
      where "add_seconds now (backoff_delay cfg (retry_count queued + 1)) = Inl (OverflowError m)"
      using d by (auto simp: n_def)
    from requeue_for_retry_overflow [OF this, of err r] assms(4) show ?thesis
      by auto
  qed
  have e: "backoff_delay cfg n = retry_delay (queue cfg) * 2 ^ (nat n - 1)"
    using d by (simp add: D_def)
  show ?thesis
    unfolding c using b1 b2 dbl inr out e by (simp add: D_def n_def)
qed

theorem requeue_for_retry_backoff_witness:
  "requeue_for_retry cfg0 1000 ((item ''A'' 0)\<lparr>retry_count := 1\<rparr>) ''boom'' empty_store =
     (None,
      (item ''A'' 0)\<lparr>retry_count := 2, last_error := Some ''boom'',
                     next_retry_at := Some 1600\<rparr>,
      empty_store\<lparr>retry_set :=
        [((item ''A'' 0)\<lparr>retry_count := 2, last_error := Some ''boom'',
                        next_retry_at := Some 1600\<rparr>, 1600)]\<rparr>) \<and>
   next_retry_at ((item ''A'' 0)\<lparr>retry_count := 2, last_error := Some ''boom'',
                     next_retry_at := Some 1600\<rparr>) = Some (1000 + 300 * 2 ^ (2 - 1))"
proof -
  have run: "requeue_for_retry cfg0 1000 ((item ''A'' 0)\<lparr>retry_count := 1\<rparr>) ''boom'' empty_store =
     (None,
      (item ''A'' 0)\<lparr>retry_count := 2, last_error := Some ''boom'',
                     next_retry_at := Some 1600\<rparr>,
      empty_store\<lparr>retry_set :=
        [((item ''A'' 0)\<lparr>retry_count := 2, last_error := Some ''boom'',
                        next_retry_at := Some 1600\<rparr>, 1600)]\<rparr>)"
    by (simp add: requeue_for_retry_def backoff_delay_def add_seconds_def timestamp_def
        datetime_min_def datetime_max_def cfg0_def item_def empty_store_def zadd_def Let_def)
  have c: "0 \<le> retry_count ((item ''A'' 0)\<lparr>retry_count := 1\<rparr>)"
    by simp
  have lo: "datetime_min \<le> 1000" and hi: "1000 \<le> datetime_max"
    by (simp_all add: datetime_min_def datetime_max_def)
  from requeue_for_retry_backoff [OF c lo hi run] run show ?thesis
    by (simp add: cfg0_def datetime_min_def datetime_max_def)
qed

text \<open>
  C2, as stated, fails where the retry time leaves the range of \<open>datetime\<close>: the
  \<open>OverflowError\<close> of line 153 comes before the test on \<open>max_retries\<close>. With
  \<open>max_retries = 0\<close> and a base delay of \<open>10^12\<close> seconds the first failure raises and
  the item is not put on the dead-letter list.
\<close>

theorem dead_letter_overflow_counterexample:
  "requeue_for_retry (with_retry_delay 1000000000000 (with_max_retries 0 cfg0)) 1000
     (item ''A'' 0) ''boom'' empty_store =
     (Some (OverflowError ''date value out of range''),
      (item ''A'' 0)\<lparr>retry_count := 1, last_error := Some ''boom''\<rparr>,
      empty_store) \<and>
   dlq_list empty_store = []"
  by (simp add: requeue_for_retry_def backoff_delay_def add_seconds_def datetime_min_def
      datetime_max_def cfg0_def with_max_retries_def with_retry_delay_def item_def
      empty_store_def Let_def)

text \<open>
  C2, amended. When a failure brings the attempt count to \<open>max_retries\<close> or beyond, the
  item is never inserted into the retry set: the retry set and the main list stay as
  they were, and no range query on the retry set, at any clock value, returns anything
  it would not have returned before. When the retry time computed for the attempt is a
  \<open>datetime\<close>, the item is pushed onto the dead-letter list; when it is not,
  \<open>requeue_for_retry\<close> raises \<open>OverflowError\<close> and the dead-letter list is unchanged too.
  Every value of \<open>max_retries\<close> is covered; with \<open>max_retries = 0\<close> the first failure is
  such a case.
\<close>

theorem requeue_for_retry_exhausted:
  assumes "0 \<le> retry_count queued"
    and "datetime_min \<le> now" and "now \<le> datetime_max"
    and "requeue_for_retry cfg now queued err r = (x, q', r')"
    and "max_retries (queue cfg) \<le> retry_count q'"
  shows "retry_set r' = retry_set r \<and> queue_list r' = queue_list r \<and>
         get_retry_read t r' = get_retry_read t r \<and>
         (datetime_min \<le> now + retry_delay (queue cfg) * 2 ^ nat (retry_count queued) \<and>
          now + retry_delay (queue cfg) * 2 ^ nat (retry_count queued) \<le> datetime_max \<longrightarrow>
            x = None \<and> dlq_list r' = q' # dlq_list r) \<and>
         (now + retry_delay (queue cfg) * 2 ^ nat (retry_count queued) < datetime_min \<or>
          datetime_max < now + retry_delay (queue cfg) * 2 ^ nat (retry_count queued) \<longrightarrow>
            (\<exists>m. x = Some (OverflowError m)) \<and> dlq_list r' = dlq_list r)"
proof -
  define D where "D = retry_delay (queue cfg) * 2 ^ nat (retry_count queued)"
  have d: "backoff_delay cfg (retry_count queued + 1) = D"
    by (simp add: backoff_delay_def D_def)
  have "retry_count q' = retry_count queued + 1"
    using requeue_for_retry_count [of cfg now queued err r] assms(4) by simp
  with assms(5) have le: "max_retries (queue cfg) \<le> retry_count queued + 1"
    by simp
  have inr: "x = None \<and> r' = r\<lparr>dlq_list := q' # dlq_list r\<rparr>"
    if "datetime_min \<le> now + D \<and> now + D \<le> datetime_max"
  proof -
    have a: "add_seconds now (backoff_delay cfg (retry_count queued + 1)) = Inr (now + D)"
      using add_seconds_in_range [OF assms(2,3), of D] that d by simp
    from requeue_for_retry_dlq [OF a le, of err r] assms(4) show ?thesis
      by auto
  qed
  have out: "(\<exists>m. x = Some (OverflowError m)) \<and> r' = r"
    if "now + D < datetime_min \<or> datetime_max < now + D"
  proof -
    from add_seconds_out_of_range [OF that] obtain m
      where "add_seconds now (backoff_delay cfg (retry_count queued + 1)) = Inl (OverflowError m)"
      using d by auto
    from requeue_for_retry_overflow [OF this, of err r] assms(4) show ?thesis
      by auto
  qed
  have cases: "(datetime_min \<le> now + D \<and> now + D \<le> datetime_max) \<or>
      (now + D < datetime_min \<or> datetime_max < now + D)"
    by arith
  have same: "retry_set r' = retry_set r \<and> queue_list r' = queue_list r"
    using cases inr out by auto
  then have g: "get_retry_read t r' = get_retry_read t r"
    by (simp add: get_retry_read_def)
  show ?thesis
    using same g inr out unfolding D_def by auto
qed

theorem requeue_for_retry_exhausted_witness:
  "requeue_for_retry (with_max_retries 0 cfg0) 1000 (item ''A'' 0) ''boom'' empty_store =
     (None,
      (item ''A'' 0)\<lparr>retry_count := 1, last_error := Some ''boom'',
                     next_retry_at := Some 1300\<rparr>,
      empty_store\<lparr>dlq_list :=
        [(item ''A'' 0)\<lparr>retry_count := 1, last_error := Some ''boom'',
                        next_retry_at := Some 1300\<rparr>]\<rparr>) \<and>
   retry_set (empty_store\<lparr>dlq_list :=
        [(item ''A'' 0)\<lparr>retry_count := 1, last_error := Some ''boom'',
                        next_retry_at := Some 1300\<rparr>]\<rparr>) = []"
proof -
  have run: "requeue_for_retry (with_max_retries 0 cfg0) 1000 (item ''A'' 0) ''boom'' empty_store =
     (None,
      (item ''A'' 0)\<lparr>retry_count := 1, last_error := Some ''boom'',
                     next_retry_at := Some 1300\<rparr>,
      empty_store\<lparr>dlq_list :=
        [(item ''A'' 0)\<lparr>retry_count := 1, last_error := Some ''boom'',
                        next_retry_at := Some 1300\<rparr>]\<rparr>)"
    by (simp add: requeue_for_retry_def backoff_delay_def add_seconds_def datetime_min_def
        datetime_max_def cfg0_def with_max_retries_def item_def empty_store_def
        move_to_dlq_def lpush_def Let_def)
  have c: "0 \<le> retry_count (item ''A'' 0)"
    by (simp add: item_def)
  have lo: "datetime_min \<le> 1000" and hi: "1000 \<le> datetime_max"
    by (simp_all add: datetime_min_def datetime_max_def)
  have m: "max_retries (queue (with_max_retries 0 cfg0)) \<le>
      retry_count ((item ''A'' 0)\<lparr>retry_count := 1, last_error := Some ''boom'',
                     next_retry_at := Some 1300\<rparr>)"
    by (simp add: with_max_retries_def cfg0_def)
  from requeue_for_retry_exhausted [OF c lo hi run m] run show ?thesis
    by (simp add: empty_store_def)
qed

text \<open>
  C9, as stated, fails: \<open>next_retry_at\<close> is assigned before the test on \<open>max_retries\<close>,
  so the item that reaches the dead-letter list carries a new \<open>next_retry_at\<close>. Here the
  item had none and is dead-lettered with \<open>next_retry_at = 1300\<close>.
\<close>

theorem dead_letter_next_retry_at_counterexample:
  "next_retry_at (item ''A'' 0) = None \<and>
   dlq_list (snd (snd (requeue_for_retry (with_max_retries 1 cfg0) 1000 (item ''A'' 0)
                         ''boom'' empty_store))) =
     [(item ''A'' 0)\<lparr>retry_count := 1, last_error := Some ''boom'',
                     next_retry_at := Some 1300\<rparr>] \<and>
   retry_set (snd (snd (requeue_for_retry (with_max_retries 1 cfg0) 1000 (item ''A'' 0)
                          ''boom'' empty_store))) = []"
  by (simp add: requeue_for_retry_def backoff_delay_def add_seconds_def datetime_min_def
      datetime_max_def cfg0_def with_max_retries_def item_def empty_store_def
      move_to_dlq_def lpush_def Let_def)

text \<open>
  C9, amended. A failure that dead-letters an item updates all three fields: when the
  retry time computed for the attempt is a \<open>datetime\<close>, the item on the dead-letter list
  has the incremented \<open>retry_count\<close>, the new \<open>last_error\<close> and \<open>next_retry_at\<close> set to the
  clock value plus the backoff delay of that attempt; the message and \<open>queued_at\<close> are
  unchanged. When the retry time is not a \<open>datetime\<close>, \<open>requeue_for_retry\<close> raises
  \<open>OverflowError\<close> before the test on \<open>max_retries\<close>: \<open>retry_count\<close> and \<open>last_error\<close> are
  updated on the item, \<open>next_retry_at\<close> is not, and nothing is dead-lettered.
\<close>

theorem requeue_for_retry_dead_letter_fields:
  assumes "0 \<le> retry_count queued"
    and "datetime_min \<le> now" and "now \<le> datetime_max"
    and "max_retries (queue cfg) \<le> retry_count queued + 1"
    and "requeue_for_retry cfg now queued err r = (x, q', r')"
  shows "retry_count q' = retry_count queued + 1 \<and> last_error q' = Some err \<and>
         email q' = email queued \<and> queued_at q' = queued_at queued \<and>
         (datetime_min \<le> now + retry_delay (queue cfg) * 2 ^ nat (retry_count queued) \<and>
          now + retry_delay (queue cfg) * 2 ^ nat (retry_count queued) \<le> datetime_max \<longrightarrow>
            x = None \<and> dlq_list r' = q' # dlq_list r \<and>
            next_retry_at q' =
              Some (now + retry_delay (queue cfg) * 2 ^ nat (retry_count queued))) \<and>
         (now + retry_delay (queue cfg) * 2 ^ nat (retry_count queued) < datetime_min \<or>
          datetime_max < now + retry_delay (queue cfg) * 2 ^ nat (retry_count queued) \<longrightarrow>
            (\<exists>m. x = Some (OverflowError m)) \<and> next_retry_at q' = next_retry_at queued \<and>
            r' = r)"
proof -
  define D where "D = retry_delay (queue cfg) * 2 ^ nat (retry_count queued)"
  have d: "backoff_delay cfg (retry_count queued + 1) = D"
    by (simp add: backoff_delay_def D_def)
  have f: "retry_count q' = retry_count queued + 1 \<and> last_error q' = Some err \<and>
      email q' = email queued \<and> queued_at q' = queued_at queued"
    using requeue_for_retry_count [of cfg now queued err r] assms(5) by simp
  have inr: "x = None \<and> dlq_list r' = q' # dlq_list r \<and> next_retry_at q' = Some (now + D)"
    if "datetime_min \<le> now + D \<and> now + D \<le> datetime_max"
  proof -
    have a: "add_seconds now (backoff_delay cfg (retry_count queued + 1)) = Inr (now + D)"
      using add_seconds_in_range [OF assms(2,3), of D] that d by simp
    from requeue_for_retry_dlq [OF a assms(4), of err r] assms(5) show ?thesis
      by auto
  qed
  have out: "(\<exists>m. x = Some (OverflowError m)) \<and> next_retry_at q' = next_retry_at queued \<and>
      r' = r"
    if "now + D < datetime_min \<or> datetime_max < now + D"
  proof -
    from add_seconds_out_of_range [OF that] obtain m
      where "add_seconds now (backoff_delay cfg (retry_count queued + 1)) = Inl (OverflowError m)"
      using d by auto
    from requeue_for_retry_overflow [OF this, of err r] assms(5) show ?thesis
      by auto
  qed
  show ?thesis
    using f inr out unfolding D_def by blast
qed

theorem requeue_for_retry_dead_letter_fields_witness:
  "requeue_for_retry (with_max_retries 2 cfg0) 50 ((item ''B'' 7)\<lparr>retry_count := 1\<rparr>)
     ''refused'' empty_store =
     (None,
      (item ''B'' 7)\<lparr>retry_count := 2, last_error := Some ''refused'',
                     next_retry_at := Some 650\<rparr>,
      empty_store\<lparr>dlq_list :=
        [(item ''B'' 7)\<lparr>retry_count := 2, last_error := Some ''refused'',
                        next_retry_at := Some 650\<rparr>]\<rparr>) \<and>
   next_retry_at ((item ''B'' 7)\<lparr>retry_count := 2, last_error := Some ''refused'',
                     next_retry_at := Some 650\<rparr>) = Some (50 + 300 * 2 ^ nat 1)"
proof -
  have run: "requeue_for_retry (with_max_retries 2 cfg0) 50 ((item ''B'' 7)\<lparr>retry_count := 1\<rparr>)
     ''refused'' empty_store =
     (None,
      (item ''B'' 7)\<lparr>retry_count := 2, last_error := Some ''refused'',
                     next_retry_at := Some 650\<rparr>,
      empty_store\<lparr>dlq_list :=
        [(item ''B'' 7)\<lparr>retry_count := 2, last_error := Some ''refused'',
                        next_retry_at := Some 650\<rparr>]\<rparr>)"
    by (simp add: requeue_for_retry_def backoff_delay_def add_seconds_def datetime_min_def
        datetime_max_def cfg0_def with_max_retries_def item_def empty_store_def
        move_to_dlq_def lpush_def Let_def)
  have c: "0 \<le> retry_count ((item ''B'' 7)\<lparr>retry_count := 1\<rparr>)"
    by simp
  have lo: "datetime_min \<le> 50" and hi: "50 \<le> datetime_max"
    by (simp_all add: datetime_min_def datetime_max_def)
  have m: "max_retries (queue (with_max_retries 2 cfg0)) \<le>
      retry_count ((item ''B'' 7)\<lparr>retry_count := 1\<rparr>) + 1"
    by (simp add: with_max_retries_def cfg0_def)
  from requeue_for_retry_dead_letter_fields [OF c lo hi m run] run show ?thesis
    by (simp add: with_max_retries_def cfg0_def datetime_min_def datetime_max_def)
qed

section \<open>Order of the main queue\<close>

lemma dequeue_n_take:
  "fst (dequeue_n n r) = take n (rev (queue_list r)) \<and>
   queue_list (snd (dequeue_n n r)) = take (length (queue_list r) - n) (queue_list r)"
proof (induction n arbitrary: r)
  case 0
  show ?case by simp
next
  case (Suc n)
  show ?case
  proof (cases "queue_list r = []")
    case True
    then show ?thesis
      by (simp add: dequeue_def rpop_def)
  next
    case False
    then obtain xs x where xs: "queue_list r = xs @ [x]"
      by (metis append_butlast_last_id)
    have d: "dequeue r = (Some x, r\<lparr>queue_list := xs\<rparr>)"
      by (simp add: dequeue_def rpop_def xs)
    from Suc.IH [of "r\<lparr>queue_list := xs\<rparr>"] show ?thesis
      by (simp add: d xs case_prod_beta)
  qed
qed

text \<open>The messages of the normal lane and of the high-priority lane, in enqueue order.\<close>

lemma enqueue_all_layout:
  "map email (queue_list (enqueue_all es r)) =
     rev [em. (now, em, priority) \<leftarrow> es, \<not> priority] @ map email (queue_list r) @
     [em. (now, em, priority) \<leftarrow> es, priority]"
proof (induction es arbitrary: r)
  case Nil
  show ?case by simp
next
  case (Cons e es)
  obtain now em priority where e: "e = (now, em, priority)"
    by (cases e) auto
  show ?case
    unfolding e by (simp add: Cons.IH enqueue_def lpush_def rpush_def Let_def)
qed

text \<open>
  C3, as stated, fails for the high-priority lane: a high-priority item is pushed at
  the end the consumer pops from, so two of them come out last-in-first-out. Enqueueing
  C and then D, both at high priority, hands out D before C.
\<close>

theorem priority_lane_fifo_counterexample:
  "map email (fst (dequeue_n 2
      (enqueue_all [(0, mail ''C'', True), (1, mail ''D'', True)] empty_store))) =
     [mail ''D'', mail ''C''] \<and>
   [mail ''D'', mail ''C''] \<noteq> [mail ''C'', mail ''D'']"
  by (simp add: enqueue_def dequeue_def rpop_def rpush_def lpush_def empty_store_def
      mail_def Let_def numeral_2_eq_2)

text \<open>
  C3, amended. After any sequence of enqueue calls on an empty queue, dequeueing hands
  out every high-priority item before any normal item; the normal items come out first
  in, first out, and the high-priority items last in, first out (the most recently
  enqueued first), as the docstring of \<open>enqueue\<close> says. Normal A, normal B, then
  high-priority C comes out as C, A, B.
\<close>

theorem dequeue_order:
  "map email (fst (dequeue_n (length es) (enqueue_all es empty_store))) =
     rev [em. (now, em, priority) \<leftarrow> es, priority] @
     [em. (now, em, priority) \<leftarrow> es, \<not> priority] \<and>
   queue_list (snd (dequeue_n (length es) (enqueue_all es empty_store))) = [] \<and>
   map email (fst (dequeue_n 3
      (enqueue_all [(0, mail ''A'', False), (1, mail ''B'', False), (2, mail ''C'', True)]
         empty_store))) = [mail ''C'', mail ''A'', mail ''B'']"
proof -
  have len: "length (queue_list (enqueue_all es r)) = length es + length (queue_list r)" for r
  proof (induction es arbitrary: r)
    case Nil
    show ?case by simp
  next
    case (Cons e es)
    obtain now em priority where e: "e = (now, em, priority)"
      by (cases e) auto
    show ?case
      unfolding e by (simp add: Cons.IH enqueue_def lpush_def rpush_def Let_def)
  qed
  have l: "length (queue_list (enqueue_all es empty_store)) = length es"
    by (simp add: len empty_store_def)
  have "map email (fst (dequeue_n (length es) (enqueue_all es empty_store))) =
      rev (map email (queue_list (enqueue_all es empty_store)))"
    by (simp add: dequeue_n_take l rev_map)
  also have "\<dots> = rev [em. (now, em, priority) \<leftarrow> es, priority] @
      [em. (now, em, priority) \<leftarrow> es, \<not> priority]"
    by (simp add: enqueue_all_layout empty_store_def)
  finally have a: "map email (fst (dequeue_n (length es) (enqueue_all es empty_store))) =
      rev [em. (now, em, priority) \<leftarrow> es, priority] @
      [em. (now, em, priority) \<leftarrow> es, \<not> priority]" .
  have b: "queue_list (snd (dequeue_n (length es) (enqueue_all es empty_store))) = []"
    by (simp add: dequeue_n_take l)
  have c: "map email (fst (dequeue_n 3
      (enqueue_all [(0, mail ''A'', False), (1, mail ''B'', False), (2, mail ''C'', True)]
         empty_store))) = [mail ''C'', mail ''A'', mail ''B'']"
    by (simp add: enqueue_def dequeue_def rpop_def rpush_def lpush_def empty_store_def
        Let_def numeral_3_eq_3)
  show ?thesis
    using a b c by simp
qed

section \<open>Draining the retry set\<close>

lemma zadd_distinct:
  "distinct (map fst z) \<Longrightarrow> distinct (map fst (zadd m s z))"
  by (auto simp: zadd_def distinct_map_filter)

lemma set_zrangebyscore:
  "set (zrangebyscore lo hi z) = fst ` {e \<in> set z. in_score_range lo hi e}"
  by (simp add: zrangebyscore_def)

lemma distinct_zrangebyscore:
  assumes "distinct (map fst z)"
  shows "distinct (zrangebyscore lo hi z)"
proof -
  have "distinct (map fst (filter (in_score_range lo hi) z))"
    using assms by (rule distinct_map_filter)
  then have "distinct (filter (in_score_range lo hi) z) \<and>
      inj_on fst (set (filter (in_score_range lo hi) z))"
    by (simp add: distinct_map)
  then have "distinct (sort_key snd (filter (in_score_range lo hi) z)) \<and>
      inj_on fst (set (sort_key snd (filter (in_score_range lo hi) z)))"
    by simp
  then show ?thesis
    unfolding zrangebyscore_def by (simp add: distinct_map)
qed

lemma zrangebyscore_empty:
  assumes "zrangebyscore lo hi z = []"
  shows "zremrangebyscore lo hi z = z"
proof -
  have "set (zrangebyscore lo hi z) = {}"
    using assms by simp
  then have "\<forall>e \<in> set z. \<not> in_score_range lo hi e"
    unfolding set_zrangebyscore by blast
  then show ?thesis
    by (simp add: zremrangebyscore_def)
qed

lemma get_retry_emails_eq:
  "get_retry_emails now r = (get_retry_read now r, get_retry_remove now r)"
proof (cases "get_retry_read now r = []")
  case True
  then have "zremrangebyscore 0 now (retry_set r) = retry_set r"
    unfolding get_retry_read_def by (rule zrangebyscore_empty)
  then have "get_retry_remove now r = r"
    by (simp add: get_retry_remove_def)
  with True show ?thesis
    by (simp add: get_retry_emails_def)
next
  case False
  then show ?thesis
    by (simp add: get_retry_emails_def Let_def)
qed

lemma caller_steps_sequential:
  "run_schedule [0, 0, 1, 1] ([Start now1, Start now2], r) =
     ([Returned (fst (get_retry_emails now1 r)),
       Returned (fst (get_retry_emails now2 (snd (get_retry_emails now1 r))))],
      snd (get_retry_emails now2 (snd (get_retry_emails now1 r))))"
proof -
  have one: "caller_step (Start now) s = (Returned [], s) \<and> get_retry_emails now s = ([], s)"
    if "get_retry_read now s = []" for now s
    using that by (simp add: get_retry_emails_def)
  have two: "caller_step (Start now) s = (Between now (get_retry_read now s), s) \<and>
      get_retry_emails now s = (get_retry_read now s, get_retry_remove now s)"
    if "get_retry_read now s \<noteq> []" for now s
    using that by (simp add: get_retry_emails_def Let_def)
  show ?thesis
  proof (cases "get_retry_read now1 r = []")
    case a: True
    show ?thesis
    proof (cases "get_retry_read now2 r = []")
      case True
      with a show ?thesis
        by (simp add: one)
    next
      case False
      with a show ?thesis
        by (simp add: one two)
    qed
  next
    case a: False
    show ?thesis
    proof (cases "get_retry_read now2 (get_retry_remove now1 r) = []")
      case True
      with a show ?thesis
        by (simp add: one two)
    next
      case False
      with a show ?thesis
        by (simp add: one two)
    qed
  qed
qed

text \<open>
  C4, as stated, fails: the range query and the range removal are two commands, and
  another caller's range query may run between them. With one due entry in the retry
  set and two callers whose commands alternate, both callers return that entry.
\<close>

theorem get_retry_emails_twice_counterexample:
  "map returned (fst (run_schedule [0, 1, 0, 1]
      ([Start 10, Start 10], empty_store\<lparr>retry_set := [(item ''A'' 0, 5)]\<rparr>))) =
     [[item ''A'' 0], [item ''A'' 0]]"
  by (simp add: get_retry_read_def get_retry_remove_def zrangebyscore_def
      zremrangebyscore_def in_score_range_def empty_store_def Let_def)

text \<open>
  C4, amended. A call of \<open>get_retry_emails\<close> whose two commands run with no other
  command between them returns exactly the members of the retry set whose score lies in
  \<open>[0, now]\<close>, each once, and removes exactly those entries; a call that follows it
  (at any clock value) returns none of them again. Two callers scheduled one after the
  other are two such calls. Nothing is claimed for callers whose commands interleave.
\<close>

theorem get_retry_emails_sequential:
  assumes "distinct (map fst (retry_set r))"
    and "get_retry_emails now r = (results, r')"
  shows "set results = fst ` {e \<in> set (retry_set r). 0 \<le> snd e \<and> snd e \<le> now} \<and>
         distinct results \<and>
         retry_set r' = filter (\<lambda>e. \<not> (0 \<le> snd e \<and> snd e \<le> now)) (retry_set r) \<and>
         set results \<inter> set (fst (get_retry_emails now2 r')) = {} \<and>
         fst (run_schedule [0, 0, 1, 1] ([Start now, Start now2], r)) =
           [Returned results, Returned (fst (get_retry_emails now2 r'))]"
proof -
  have res: "results = zrangebyscore 0 now (retry_set r)"
    and r': "r' = r\<lparr>retry_set := zremrangebyscore 0 now (retry_set r)\<rparr>"
    using assms(2) by (simp_all add: get_retry_emails_eq get_retry_read_def get_retry_remove_def)
  have a: "set results = fst ` {e \<in> set (retry_set r). 0 \<le> snd e \<and> snd e \<le> now}"
    by (simp add: res set_zrangebyscore in_score_range_def)
  have b: "distinct results"
    unfolding res using assms(1) by (rule distinct_zrangebyscore)
  have c: "retry_set r' = filter (\<lambda>e. \<not> (0 \<le> snd e \<and> snd e \<le> now)) (retry_set r)"
    by (simp add: r' zremrangebyscore_def in_score_range_def)
  have d: "set results \<inter> set (fst (get_retry_emails now2 r')) = {}"
  proof (rule ccontr)
    assume "set results \<inter> set (fst (get_retry_emails now2 r')) \<noteq> {}"
    then obtain m where m1: "m \<in> set results"
      and m2: "m \<in> set (fst (get_retry_emails now2 r'))"
      by blast
    from m1 a obtain s1 where s1: "(m, s1) \<in> set (retry_set r)" "0 \<le> s1 \<and> s1 \<le> now"
      by auto
    from m2 have "m \<in> set (zrangebyscore 0 now2 (retry_set r'))"
      by (simp add: get_retry_emails_eq get_retry_read_def)
    then obtain s2 where s2: "(m, s2) \<in> set (retry_set r')"
      unfolding set_zrangebyscore by auto
    then have in2: "(m, s2) \<in> set (retry_set r)" and out2: "\<not> (0 \<le> s2 \<and> s2 \<le> now)"
      unfolding c by simp_all
    from assms(1) s1(1) in2 have "s1 = s2"
      by (meson eq_key_imp_eq_value)
    with s1(2) out2 show False
      by simp
  qed
  have e: "fst (run_schedule [0, 0, 1, 1] ([Start now, Start now2], r)) =
           [Returned results, Returned (fst (get_retry_emails now2 r'))]"
    unfolding caller_steps_sequential using assms(2) by simp
  show ?thesis
    using a b c d e by blast
qed

theorem get_retry_emails_sequential_witness:
  "distinct (map fst [(item ''A'' 0, 5), (item ''B'' 1, 20 :: time)]) \<and>
   get_retry_emails 10 (empty_store\<lparr>retry_set := [(item ''A'' 0, 5), (item ''B'' 1, 20)]\<rparr>) =
     ([item ''A'' 0], empty_store\<lparr>retry_set := [(item ''B'' 1, 20)]\<rparr>) \<and>
   set [item ''A'' 0] \<inter>
     set (fst (get_retry_emails 30 (empty_store\<lparr>retry_set := [(item ''B'' 1, 20)]\<rparr>))) = {}"
proof -
  have d: "distinct (map fst (retry_set
      (empty_store\<lparr>retry_set := [(item ''A'' 0, 5), (item ''B'' 1, 20)]\<rparr>)))"
    by (simp add: item_def mail_def)
  have run: "get_retry_emails 10
      (empty_store\<lparr>retry_set := [(item ''A'' 0, 5), (item ''B'' 1, 20)]\<rparr>) =
     ([item ''A'' 0], empty_store\<lparr>retry_set := [(item ''B'' 1, 20)]\<rparr>)"
    by (simp add: get_retry_emails_def get_retry_read_def get_retry_remove_def
        zrangebyscore_def zremrangebyscore_def in_score_range_def empty_store_def Let_def)
  have d0: "distinct (map fst [(item ''A'' 0, 5), (item ''B'' 1, 20 :: time)])"
    by (simp add: item_def mail_def)
  have "set [item ''A'' 0] \<inter>
     set (fst (get_retry_emails 30 (empty_store\<lparr>retry_set := [(item ''B'' 1, 20)]\<rparr>))) = {}"
    using get_retry_emails_sequential [OF d run, of 30] by blast
  with d0 run show ?thesis
    by blast
qed

section \<open>The rate limiter\<close>

text \<open>
  C5. The claim holds of a limiter that blocks until the window has room, which is what
  the docstring of \<open>acquire\<close> promises; the code does not. The waiting loop leaves through
  its \<open>else: break\<close> when the oldest timestamp is exactly one hour old: pruning keeps
  that timestamp (it removes only strictly older ones), the window is still full, and the
  permit is granted all the same. With \<open>max_per_hour = 1\<close> and calls at clock values 0,
  3600 and 3600, all three are granted: two grants carry the timestamp 3600, so two
  grants lie in the trailing hour \<open>(0, 3600]\<close>, and the hourly window holds three
  timestamps. With two calls at clock value 0, the second is granted when the clock
  reaches 3600 and the window then holds two timestamps. The minute window behaves
  alike.
\<close>

theorem acquire_grants_beyond_limit:
  "acquire_seq [0, 3600, 3600] (new_rate_limiter 1 None) 0 =
     ([0, 3600, 3600],
      \<lparr>max_per_hour = 1, max_per_minute = None, hourly_timestamps = [0, 3600, 3600],
       minute_timestamps = []\<rparr>) \<and>
   grants_in_last_hour 3600 [0, 3600, 3600] = 2 \<and>
   acquire_seq [0, 0] (new_rate_limiter 1 None) 0 =
     ([0, 3600],
      \<lparr>max_per_hour = 1, max_per_minute = None, hourly_timestamps = [0, 3600],
       minute_timestamps = []\<rparr>) \<and>
   acquire_seq [0, 60, 60] (new_rate_limiter 100 (Some 1)) 0 =
     ([0, 60, 60],
      \<lparr>max_per_hour = 100, max_per_minute = Some 1, hourly_timestamps = [0, 60, 60],
       minute_timestamps = [0, 60, 60]\<rparr>)"
  by (simp add: acquire_def new_rate_limiter_def cleanup_timestamps_def record_send_def
      truthy_int_def hour_def minute_def grants_in_last_hour_def Let_def)

section \<open>The sender\<close>

lemma send_guarded_cases:
  "send_guarded ext cfg now em =
     (case fst (send_attempt ext cfg em) of
        Inr mid \<Rightarrow>
          (Inr \<lparr>status = SENT, message_id = Some mid, error = None, sent_at = Some now,
                result_retry_count = 0,
                result_smtp_account =
                  Some (str_or (smtp_account (snd (send_attempt ext cfg em)))
                          (default_account cfg))\<rparr>,
           snd (send_attempt ext cfg em))
      | Inl e \<Rightarrow>
          if is_Exception e
          then (Inr \<lparr>status = FAILED, message_id = None, error = Some (exn_str e),
                     sent_at = None, result_retry_count = 0,
                     result_smtp_account =
                       Some (str_or (smtp_account (snd (send_attempt ext cfg em)))
                               (default_account cfg))\<rparr>,
                snd (send_attempt ext cfg em))
          else (Inl e, snd (send_attempt ext cfg em)))"
  by (cases "send_attempt ext cfg em") (auto simp: send_guarded_def split: sum.splits)

lemma send_attempt_raises_Exception:
  assumes "\<And>name m e. jinja_render ext name m = Inl e \<Longrightarrow> is_Exception e"
    and "\<And>m acct e. build_mime_message ext m acct = Inl e \<Longrightarrow> is_Exception e"
    and "\<And>mime m acct e. send_smtp ext mime m acct = Inl e \<Longrightarrow> is_Exception e"
    and "fst (send_attempt ext cfg em) = Inl e"
  shows "is_Exception e"
proof -
  obtain x em1 where rd:
    "(if truthy_str (template_name em) then render_template ext cfg em else (None, em)) =
       (x, em1)"
    by (cases "if truthy_str (template_name em) then render_template ext cfg em
        else (None, em)") blast
  have x: "is_Exception e1" if "x = Some e1" for e1
  proof -
    from that rd have "fst (render_template ext cfg em) = Some e1"
      by (auto split: if_splits)
    then show ?thesis
      using assms(1) by (auto simp: render_template_def split: if_splits sum.splits)
  qed
  show ?thesis
  proof (cases "get_smtp_account cfg (smtp_account em)")
    case (Inl e1)
    then have "is_Exception e1"
      by (auto simp: get_smtp_account_def Let_def split: option.splits)
    with Inl assms(4) show ?thesis
      by (simp add: send_attempt_def)
  next
    case (Inr acct)
    then have sa: "send_attempt ext cfg em =
        (case x of
           Some e \<Rightarrow> (Inl e, em1)
         | None \<Rightarrow>
             (case build_mime_message ext em1 acct of
                Inl e \<Rightarrow> (Inl e, em1)
              | Inr mime \<Rightarrow>
                  (case send_smtp ext mime em1 acct of
                     Inl e \<Rightarrow> (Inl e, em1)
                   | Inr mid \<Rightarrow> (Inr mid, em1))))"
      by (simp add: send_attempt_def rd)
    show ?thesis
      using assms(4) x assms(2) [of em1 acct] assms(3) [of _ em1 acct]
      unfolding sa by (auto split: option.splits sum.splits)
  qed
qed

lemma send_attempt_unknown_account:
  "get_smtp_account cfg (smtp_account em) = Inl e \<Longrightarrow> send_attempt ext cfg em = (Inl e, em)"
  by (simp add: send_attempt_def)

lemma send_attempt_not_enabled:
  assumes "get_smtp_account cfg (smtp_account em) = Inr acct"
    and "truthy_str (template_name em)" and "\<not> templates_enabled cfg"
  shows "fst (send_attempt ext cfg em) =
           Inl (ValueError ''Templates are not enabled in configuration'')"
  using assms by (simp add: send_attempt_def render_template_def)

lemma send_attempt_render_fault:
  assumes "get_smtp_account cfg (smtp_account em) = Inr acct"
    and "template_name em = Some name" and "name \<noteq> []" and "templates_enabled cfg"
    and "jinja_render ext name em = Inl e"
  shows "fst (send_attempt ext cfg em) = Inl e"
  using assms by (simp add: send_attempt_def render_template_def truthy_str_def str_or_def)

text \<open>
  The message handed to the MIME construction and to the SMTP session: the message
  itself when it names no template, else the message with the rendered text.
\<close>

lemma send_attempt_transport:
  assumes "get_smtp_account cfg (smtp_account em) = Inr acct"
    and "(\<not> truthy_str (template_name em) \<and> em1 = em) \<or>
         (\<exists>name rendered. template_name em = Some name \<and> name \<noteq> [] \<and>
            templates_enabled cfg \<and> jinja_render ext name em = Inr rendered \<and>
            em1 = (if ends_with name ''.html'' then em\<lparr>html := Some rendered\<rparr>
                   else em\<lparr>body := Some rendered\<rparr>))"
  shows "fst (send_attempt ext cfg em) =
           (case build_mime_message ext em1 acct of
              Inl e \<Rightarrow> Inl e
            | Inr mime \<Rightarrow>
                (case send_smtp ext mime em1 acct of Inl e \<Rightarrow> Inl e | Inr mid \<Rightarrow> Inr mid))"
  using assms(2)
proof
  assume "\<not> truthy_str (template_name em) \<and> em1 = em"
  with assms(1) show ?thesis
    by (simp add: send_attempt_def split: sum.splits)
next
  assume "\<exists>name rendered. template_name em = Some name \<and> name \<noteq> [] \<and>
            templates_enabled cfg \<and> jinja_render ext name em = Inr rendered \<and>
            em1 = (if ends_with name ''.html'' then em\<lparr>html := Some rendered\<rparr>
                   else em\<lparr>body := Some rendered\<rparr>)"
  then obtain name rendered where t: "template_name em = Some name" "name \<noteq> []"
      "templates_enabled cfg" "jinja_render ext name em = Inr rendered"
    and em1: "em1 = (if ends_with name ''.html'' then em\<lparr>html := Some rendered\<rparr>
                   else em\<lparr>body := Some rendered\<rparr>)"
    by blast
  have rt: "render_template ext cfg em = (None, em1)"
    using t em1 by (simp add: render_template_def truthy_str_def str_or_def)
  have tr: "truthy_str (template_name em)"
    using t by (simp add: truthy_str_def)
  show ?thesis
    using assms(1) tr rt by (simp add: send_attempt_def split: sum.splits)
qed

text \<open>
  C10. When the faults of the template engine, of the MIME construction and of the SMTP
  session are exceptions (instances of \<open>Exception\<close>), \<open>send_email\<close> returns a result once
  the permit is acquired, and so it does when no limiter is configured, and the status
  is SENT or FAILED. Step by step: an unknown SMTP account name gives FAILED with the
  \<open>ValueError\<close> of \<open>get_smtp_account\<close> as the error text; a template with templates
  disabled, or a fault of the template engine, gives FAILED with that fault's text; a
  fault of the MIME construction or of the SMTP session on the message to send gives
  FAILED with that fault's text; and when the SMTP session returns an id, the status is
  SENT with that id as \<open>message_id\<close> and no error. A FAILED result has no \<open>message_id\<close>.
\<close>

theorem send_email_total:
  assumes "\<forall>name m e. jinja_render ext name m = Inl e \<longrightarrow> is_Exception e"
    and "\<forall>m acct e. build_mime_message ext m acct = Inl e \<longrightarrow> is_Exception e"
    and "\<forall>mime m acct e. send_smtp ext mime m acct = Inl e \<longrightarrow> is_Exception e"
    and "limiter sender = None \<or>
         (\<exists>rl rl1 t1. limiter sender = Some rl \<and> acquire rl now = (None, rl1, t1))"
  shows "\<exists>res. fst (send_email ext cfg sender now em) = Inr res \<and>
           (status res = SENT \<or> status res = FAILED) \<and>
           (status res = FAILED \<longrightarrow> message_id res = None) \<and>
           (\<forall>e. get_smtp_account cfg (smtp_account em) = Inl e \<longrightarrow>
                  status res = FAILED \<and> error res = Some (exn_str e)) \<and>
           (\<forall>acct. get_smtp_account cfg (smtp_account em) = Inr acct \<longrightarrow>
              (truthy_str (template_name em) \<and> \<not> templates_enabled cfg \<longrightarrow>
                 status res = FAILED \<and>
                 error res = Some ''Templates are not enabled in configuration'') \<and>
              (\<forall>name e. template_name em = Some name \<and> name \<noteq> [] \<and>
                    templates_enabled cfg \<and> jinja_render ext name em = Inl e \<longrightarrow>
                 status res = FAILED \<and> error res = Some (exn_str e)) \<and>
              (\<forall>em1.
                 (\<not> truthy_str (template_name em) \<and> em1 = em) \<or>
                 (\<exists>name rendered. template_name em = Some name \<and> name \<noteq> [] \<and>
                    templates_enabled cfg \<and> jinja_render ext name em = Inr rendered \<and>
                    em1 = (if ends_with name ''.html'' then em\<lparr>html := Some rendered\<rparr>
                           else em\<lparr>body := Some rendered\<rparr>)) \<longrightarrow>
                 (case build_mime_message ext em1 acct of
                    Inl e \<Rightarrow> status res = FAILED \<and> error res = Some (exn_str e)
                  | Inr mime \<Rightarrow>
                      (case send_smtp ext mime em1 acct of
                         Inl e \<Rightarrow> status res = FAILED \<and> error res = Some (exn_str e)
                       | Inr mid \<Rightarrow>
                           status res = SENT \<and> message_id res = Some mid \<and>
                           error res = None))))"
proof -
  have exc: "is_Exception e" if "fst (send_attempt ext cfg em) = Inl e" for e
    using assms(1-3) that by (intro send_attempt_raises_Exception [of ext cfg em e]) blast+
  have g: "\<exists>res. fst (send_guarded ext cfg t em) = Inr res \<and>
           (case fst (send_attempt ext cfg em) of
              Inr mid \<Rightarrow> status res = SENT \<and> message_id res = Some mid \<and> error res = None
            | Inl e \<Rightarrow> status res = FAILED \<and> error res = Some (exn_str e) \<and>
                        message_id res = None)" for t
  proof (cases "fst (send_attempt ext cfg em)")
    case (Inl e)
    with exc [of e] show ?thesis
      by (simp add: send_guarded_cases)
  next
    case (Inr mid)
    then show ?thesis
      by (simp add: send_guarded_cases)
  qed
  have same: "\<exists>t. fst (send_email ext cfg sender now em) = fst (send_guarded ext cfg t em)"
    using assms(4)
  proof
    assume "limiter sender = None"
    then have "fst (send_email ext cfg sender now em) = fst (send_guarded ext cfg now em)"
      by (simp add: send_email_def split: prod.splits)
    then show ?thesis ..
  next
    assume "\<exists>rl rl1 t1. limiter sender = Some rl \<and> acquire rl now = (None, rl1, t1)"
    then obtain rl rl1 t1 where "limiter sender = Some rl" "acquire rl now = (None, rl1, t1)"
      by blast
    then have "fst (send_email ext cfg sender now em) = fst (send_guarded ext cfg t1 em)"
      by (simp add: send_email_def split: prod.splits)
    then show ?thesis ..
  qed
  then obtain t where t: "fst (send_email ext cfg sender now em) = fst (send_guarded ext cfg t em)"
    by blast
  from g [of t] obtain res where r1: "fst (send_guarded ext cfg t em) = Inr res"
    and r2: "case fst (send_attempt ext cfg em) of
              Inr mid \<Rightarrow> status res = SENT \<and> message_id res = Some mid \<and> error res = None
            | Inl e \<Rightarrow> status res = FAILED \<and> error res = Some (exn_str e) \<and>
                        message_id res = None"
    by blast
  have fail: "status res = FAILED \<and> error res = Some (exn_str e)"
    if "fst (send_attempt ext cfg em) = Inl e" for e
    using r2 that by simp
  have r3: "status res = SENT \<or> status res = FAILED"
    using r2 by (cases "fst (send_attempt ext cfg em)") simp_all
  have r3': "message_id res = None" if "status res = FAILED"
    using r2 that by (cases "fst (send_attempt ext cfg em)") simp_all
  have r4: "status res = FAILED \<and> error res = Some (exn_str e)"
    if "get_smtp_account cfg (smtp_account em) = Inl e" for e
    using fail [of e] send_attempt_unknown_account [OF that, of ext] by simp
  have r5: "status res = FAILED \<and>
      error res = Some ''Templates are not enabled in configuration''"
    if "get_smtp_account cfg (smtp_account em) = Inr acct"
      and "truthy_str (template_name em) \<and> \<not> templates_enabled cfg" for acct
  proof -
    from that have "fst (send_attempt ext cfg em) =
        Inl (ValueError ''Templates are not enabled in configuration'')"
      by (intro send_attempt_not_enabled [of cfg em acct]) simp_all
    from fail [OF this] show ?thesis
      by simp
  qed
  have r6: "status res = FAILED \<and> error res = Some (exn_str e)"
    if "get_smtp_account cfg (smtp_account em) = Inr acct"
      and "template_name em = Some name \<and> name \<noteq> [] \<and> templates_enabled cfg \<and>
           jinja_render ext name em = Inl e" for acct name e
  proof -
    from that have "fst (send_attempt ext cfg em) = Inl e"
      by (intro send_attempt_render_fault [of cfg em acct name]) simp_all
    from fail [OF this] show ?thesis .
  qed
  have r7: "case build_mime_message ext em1 acct of
              Inl e \<Rightarrow> status res = FAILED \<and> error res = Some (exn_str e)
            | Inr mime \<Rightarrow>
                (case send_smtp ext mime em1 acct of
                   Inl e \<Rightarrow> status res = FAILED \<and> error res = Some (exn_str e)
                 | Inr mid \<Rightarrow>
                     status res = SENT \<and> message_id res = Some mid \<and> error res = None)"
    if "get_smtp_account cfg (smtp_account em) = Inr acct"
      and "(\<not> truthy_str (template_name em) \<and> em1 = em) \<or>
           (\<exists>name rendered. template_name em = Some name \<and> name \<noteq> [] \<and>
              templates_enabled cfg \<and> jinja_render ext name em = Inr rendered \<and>
              em1 = (if ends_with name ''.html'' then em\<lparr>html := Some rendered\<rparr>
                     else em\<lparr>body := Some rendered\<rparr>))" for acct em1
    using r2 unfolding send_attempt_transport [OF that]
    by (auto split: sum.splits)
  show ?thesis
    using t r1 r3 r3' r4 r5 r6 r7 by (intro exI [of _ res]) (simp, blast)
qed

theorem send_email_total_witness:
  "fst (send_email ext_refused cfg0 \<lparr>limiter = None\<rparr> 5 (mail ''A'')) =
     Inr \<lparr>status = FAILED, message_id = None, error = Some ''refused'', sent_at = None,
          result_retry_count = 0, result_smtp_account = Some ''default''\<rparr> \<and>
   fst (send_email ext_ok cfg0 (new_sender cfg0) 5 (mail ''B'')) =
     Inr \<lparr>status = SENT, message_id = Some ''id-1'', error = None, sent_at = Some 5,
          result_retry_count = 0, result_smtp_account = Some ''default''\<rparr> \<and>
   fst (send_email ext_ok cfg0 \<lparr>limiter = None\<rparr> 5
          ((mail ''A'')\<lparr>smtp_account := Some ''nope''\<rparr>)) =
     Inr \<lparr>status = FAILED, message_id = None,
          error = Some ''SMTP account 'nope' not found. Available accounts: default'',
          sent_at = None, result_retry_count = 0, result_smtp_account = Some ''nope''\<rparr>"
proof -
  define acct0 where "acct0 = \<lparr>host = ''smtp.example.com'', port = 587, username = ''user'',
    password = ''secret'', from_email = ''noreply@example.com''\<rparr>"
  have a: "\<forall>name m e. jinja_render ext_ok name m = Inl e \<longrightarrow> is_Exception e"
    by (simp add: ext_ok_def)
  have b: "\<forall>m acct e. build_mime_message ext_ok m acct = Inl e \<longrightarrow> is_Exception e"
    by (simp add: ext_ok_def)
  have c: "\<forall>mime m acct e. send_smtp ext_ok mime m acct = Inl e \<longrightarrow> is_Exception e"
    by (simp add: ext_ok_def)
  have a': "\<forall>name m e. jinja_render ext_refused name m = Inl e \<longrightarrow> is_Exception e"
    by (simp add: ext_refused_def ext_ok_def)
  have b': "\<forall>m acct e. build_mime_message ext_refused m acct = Inl e \<longrightarrow> is_Exception e"
    by (simp add: ext_refused_def ext_ok_def)
  have c': "\<forall>mime m acct e. send_smtp ext_refused mime m acct = Inl e \<longrightarrow> is_Exception e"
    by (auto simp: ext_refused_def ext_ok_def)
  have d1: "limiter \<lparr>limiter = None\<rparr> = None \<or>
      (\<exists>rl rl1 t1. limiter \<lparr>limiter = None\<rparr> = Some rl \<and> acquire rl 5 = (None, rl1, t1))"
    by simp
  have acq: "acquire (new_rate_limiter 100 None) 5 =
      (None, \<lparr>max_per_hour = 100, max_per_minute = None, hourly_timestamps = [5],
               minute_timestamps = []\<rparr>, 5)"
    by (simp add: acquire_def new_rate_limiter_def cleanup_timestamps_def record_send_def
        truthy_int_def Let_def)
  have d2: "limiter (new_sender cfg0) = None \<or>
      (\<exists>rl rl1 t1. limiter (new_sender cfg0) = Some rl \<and> acquire rl 5 = (None, rl1, t1))"
    using acq by (simp add: new_sender_def cfg0_def)
  have known: "get_smtp_account cfg0 (smtp_account (mail s)) = Inr acct0" for s
    by (simp add: get_smtp_account_def str_or_def cfg0_def mail_def acct0_def Let_def)
  have unknown: "get_smtp_account cfg0 (smtp_account ((mail ''A'')\<lparr>smtp_account := Some ''nope''\<rparr>)) =
      Inl (ValueError ''SMTP account 'nope' not found. Available accounts: default'')"
    by (simp add: get_smtp_account_def str_or_def cfg0_def Let_def)
  have nt: "\<not> truthy_str (template_name (mail s)) \<and> mail s = mail s" for s
    by (simp add: truthy_str_def mail_def)
  from send_email_total [OF a' b' c' d1, of cfg0 "mail ''A''"]
  obtain r1 where r1: "fst (send_email ext_refused cfg0 \<lparr>limiter = None\<rparr> 5 (mail ''A'')) = Inr r1"
    and t1: "case build_mime_message ext_refused (mail ''A'') acct0 of
                Inl e \<Rightarrow> status r1 = FAILED \<and> error r1 = Some (exn_str e)
              | Inr mime \<Rightarrow>
                  (case send_smtp ext_refused mime (mail ''A'') acct0 of
                     Inl e \<Rightarrow> status r1 = FAILED \<and> error r1 = Some (exn_str e)
                   | Inr mid \<Rightarrow>
                       status r1 = SENT \<and> message_id r1 = Some mid \<and> error r1 = None)"
    using known [of "''A''"] nt [of "''A''"] by blast
  have f1: "status r1 = FAILED \<and> error r1 = Some ''refused''"
    using t1 by (simp add: ext_refused_def ext_ok_def)
  from send_email_total [OF a b c d2, of cfg0 "mail ''B''"]
  obtain r2 where r2: "fst (send_email ext_ok cfg0 (new_sender cfg0) 5 (mail ''B'')) = Inr r2"
    and t2: "case build_mime_message ext_ok (mail ''B'') acct0 of
                Inl e \<Rightarrow> status r2 = FAILED \<and> error r2 = Some (exn_str e)
              | Inr mime \<Rightarrow>
                  (case send_smtp ext_ok mime (mail ''B'') acct0 of
                     Inl e \<Rightarrow> status r2 = FAILED \<and> error r2 = Some (exn_str e)
                   | Inr mid \<Rightarrow>
                       status r2 = SENT \<and> message_id r2 = Some mid \<and> error r2 = None)"
    using known [of "''B''"] nt [of "''B''"] by blast
  have f2: "status r2 = SENT \<and> message_id r2 = Some ''id-1''"
    using t2 by (simp add: ext_ok_def)
  from send_email_total [OF a b c d1, of cfg0 "(mail ''A'')\<lparr>smtp_account := Some ''nope''\<rparr>"]
  obtain r3 where r3: "fst (send_email ext_ok cfg0 \<lparr>limiter = None\<rparr> 5
        ((mail ''A'')\<lparr>smtp_account := Some ''nope''\<rparr>)) = Inr r3"
    and f3: "status r3 = FAILED \<and>
      error r3 = Some ''SMTP account 'nope' not found. Available accounts: default''"
    using unknown by auto
  have e1: "fst (send_email ext_refused cfg0 \<lparr>limiter = None\<rparr> 5 (mail ''A'')) =
     Inr \<lparr>status = FAILED, message_id = None, error = Some ''refused'', sent_at = None,
          result_retry_count = 0, result_smtp_account = Some ''default''\<rparr>"
    by (simp add: send_email_def send_guarded_def send_attempt_def get_smtp_account_def
        str_or_def truthy_str_def cfg0_def mail_def ext_refused_def ext_ok_def Let_def)
  have e2: "fst (send_email ext_ok cfg0 (new_sender cfg0) 5 (mail ''B'')) =
     Inr \<lparr>status = SENT, message_id = Some ''id-1'', error = None, sent_at = Some 5,
          result_retry_count = 0, result_smtp_account = Some ''default''\<rparr>"
    using acq
    by (simp add: send_email_def send_guarded_def send_attempt_def get_smtp_account_def
        new_sender_def str_or_def truthy_str_def cfg0_def mail_def ext_ok_def Let_def)
  have e3: "fst (send_email ext_ok cfg0 \<lparr>limiter = None\<rparr> 5
        ((mail ''A'')\<lparr>smtp_account := Some ''nope''\<rparr>)) =
     Inr \<lparr>status = FAILED, message_id = None,
          error = Some ''SMTP account 'nope' not found. Available accounts: default'',
          sent_at = None, result_retry_count = 0, result_smtp_account = Some ''nope''\<rparr>"
    by (simp add: send_email_def send_guarded_def send_attempt_unknown_account [OF unknown]
        str_or_def)
  from r1 f1 r2 f2 r3 f3 e1 e2 e3 show ?thesis
    by simp
qed

section \<open>The worker\<close>

lemma hourly_wait_raises:
  "fst (hourly_wait rl now) = Some e \<Longrightarrow> is_Exception e"
proof (induction rl now rule: hourly_wait.induct)
  case (1 rl now)
  show ?case
  proof (cases "hourly_timestamps rl")
    case Nil
    with "1.prems" show ?thesis
      by (subst (asm) hourly_wait.simps) (auto split: if_splits)
  next
    case (Cons oldest rest)
    show ?thesis
    proof (cases "max_per_hour rl \<le> int (length (hourly_timestamps rl)) \<and>
        0 < oldest + hour - now")
      case True
      with Cons "1.prems"
      have "fst (hourly_wait (cleanup_timestamps (now + (oldest + hour - now)) rl)
          (now + (oldest + hour - now))) = Some e"
        by (subst (asm) hourly_wait.simps) (simp add: Let_def)
      with True Cons show ?thesis
        by (intro "1.IH" [of oldest rest "oldest + hour" "oldest + hour - now"]) simp_all
    next
      case False
      with Cons "1.prems" show ?thesis
        by (subst (asm) hourly_wait.simps) (auto simp: Let_def split: if_splits)
    qed
  qed
qed

lemma minute_wait_raises:
  "fst (minute_wait rl now) = Some e \<Longrightarrow> is_Exception e"
proof (induction rl now rule: minute_wait.induct)
  case (1 rl now)
  show ?case
  proof (cases "max_per_minute rl")
    case None
    with "1.prems" show ?thesis
      by (subst (asm) minute_wait.simps) simp
  next
    case (Some m)
    show ?thesis
    proof (cases "minute_timestamps rl")
      case Nil
      with Some "1.prems" show ?thesis
        by (subst (asm) minute_wait.simps) (auto split: if_splits)
    next
      case (Cons oldest rest)
      show ?thesis
      proof (cases "m \<le> int (length (minute_timestamps rl)) \<and> 0 < oldest + minute - now")
        case True
        with Some Cons "1.prems"
        have "fst (minute_wait (cleanup_timestamps (now + (oldest + minute - now)) rl)
            (now + (oldest + minute - now))) = Some e"
          by (subst (asm) minute_wait.simps) (simp add: Let_def)
        with True Some Cons show ?thesis
          by (intro "1.IH" [of m oldest rest "oldest + minute" "oldest + minute - now"])
            simp_all
      next
        case False
        with Some Cons "1.prems" show ?thesis
          by (subst (asm) minute_wait.simps) (auto simp: Let_def split: if_splits)
      qed
    qed
  qed
qed

lemma acquire_raises:
  assumes "fst (acquire rl now) = Some e"
  shows "is_Exception e"
proof -
  obtain x1 rl1 t1 where h: "hourly_wait (cleanup_timestamps now rl) now = (x1, rl1, t1)"
    by (cases "hourly_wait (cleanup_timestamps now rl) now") blast
  obtain x2 rl2 t2 where m: "minute_wait rl1 t1 = (x2, rl2, t2)"
    by (cases "minute_wait rl1 t1") blast
  from assms have "x1 = Some e \<or> x2 = Some e"
    by (auto simp: acquire_def h m simp del: hourly_wait.simps minute_wait.simps
        split: option.splits if_splits)
  then show ?thesis
  proof
    assume "x1 = Some e"
    with h have "fst (hourly_wait (cleanup_timestamps now rl) now) = Some e"
      by simp
    then show ?thesis
      by (rule hourly_wait_raises)
  next
    assume "x2 = Some e"
    with m have "fst (minute_wait rl1 t1) = Some e"
      by simp
    then show ?thesis
      by (rule minute_wait_raises)
  qed
qed

text \<open>
  A sender over a transport whose faults are exceptions never hands \<open>CancelledError\<close> to
  the worker.
\<close>

lemma sender_env_raises:
  assumes "\<forall>name m e. jinja_render ext name m = Inl e \<longrightarrow> is_Exception e"
    and "\<forall>m acct e. build_mime_message ext m acct = Inl e \<longrightarrow> is_Exception e"
    and "\<forall>mime m acct e. send_smtp ext mime m acct = Inl e \<longrightarrow> is_Exception e"
    and "fst (send (sender_env ext cfg) w em) = Inl e"
  shows "is_Exception e"
proof -
  have g: "is_Exception e" if "fst (send_guarded ext cfg t em) = Inl e" for t
  proof -
    from that obtain e1 where e1: "fst (send_attempt ext cfg em) = Inl e1"
      and ne: "\<not> is_Exception e1"
      by (auto simp: send_guarded_cases split: sum.splits if_splits)
    from assms(1-3) e1 have "is_Exception e1"
      by (intro send_attempt_raises_Exception [of ext cfg em e1]) blast+
    with ne show ?thesis
      by simp
  qed
  have se: "fst (send_email ext cfg (fst w) (snd w) em) = Inl e"
    using assms(4) by (simp add: sender_env_def split: prod.splits)
  show ?thesis
  proof (cases "limiter (fst w)")
    case None
    with se have "fst (send_guarded ext cfg (snd w) em) = Inl e"
      by (simp add: send_email_def split: prod.splits)
    then show ?thesis
      by (rule g)
  next
    case (Some rl)
    obtain x rl1 t1 where a: "acquire rl (snd w) = (x, rl1, t1)"
      by (cases "acquire rl (snd w)") blast
    show ?thesis
    proof (cases x)
      case None
      with se Some a have "fst (send_guarded ext cfg t1 em) = Inl e"
        by (simp add: send_email_def split: prod.splits)
      then show ?thesis
        by (rule g)
    next
      case (Some e1)
      with se \<open>limiter (fst w) = Some rl\<close> a have "e1 = e"
        by (simp add: send_email_def)
      with Some a have "fst (acquire rl (snd w)) = Some e"
        by simp
      then show ?thesis
        by (rule acquire_raises)
    qed
  qed
qed

lemma requeue_for_retry_ok:
  assumes "0 \<le> retry_count queued"
    and "retry_time_ok cfg now (retry_count queued + 1)"
  shows "fst (requeue_for_retry cfg now queued err r) = None \<and>
         fst (snd (requeue_for_retry cfg now queued err r)) =
           queued\<lparr>retry_count := retry_count queued + 1, last_error := Some err,
                  next_retry_at :=
                    Some (now + retry_delay (queue cfg) * 2 ^ nat (retry_count queued))\<rparr> \<and>
         (fst (snd (requeue_for_retry cfg now queued err r))
            \<in> fst ` set (retry_set (snd (snd (requeue_for_retry cfg now queued err r)))) \<or>
          fst (snd (requeue_for_retry cfg now queued err r))
            \<in> set (dlq_list (snd (snd (requeue_for_retry cfg now queued err r)))))"
proof -
  define D where "D = retry_delay (queue cfg) * 2 ^ nat (retry_count queued)"
  have d: "backoff_delay cfg (retry_count queued + 1) = D"
    by (simp add: backoff_delay_def D_def)
  have ok: "datetime_min \<le> now" "now \<le> datetime_max" "datetime_min + 86400 \<le> now + D"
    "now + D \<le> datetime_max"
    using assms(2) by (simp_all add: retry_time_ok_def d)
  then have lo: "datetime_min \<le> now + D"
    by simp
  have a: "add_seconds now (backoff_delay cfg (retry_count queued + 1)) = Inr (now + D)"
    using add_seconds_in_range [OF ok(1,2) lo ok(4)] d by simp
  show ?thesis
  proof (cases "max_retries (queue cfg) \<le> retry_count queued + 1")
    case True
    from requeue_for_retry_dlq [OF a True, of err r] show ?thesis
      by (simp add: D_def)
  next
    case False
    then have "retry_count queued + 1 < max_retries (queue cfg)"
      by simp
    from requeue_for_retry_schedule [OF a this ok(3), of err r] show ?thesis
      by (simp add: D_def zadd_def)
  qed
qed

lemma requeue_for_retry_grows:
  "fst ` set (retry_set r)
     \<subseteq> fst ` set (retry_set (snd (snd (requeue_for_retry cfg now queued err r)))) \<and>
   set (dlq_list r) \<subseteq> set (dlq_list (snd (snd (requeue_for_retry cfg now queued err r))))"
proof -
  have z: "fst ` set z \<subseteq> fst ` set (zadd m sc z)" for z :: "queued_email zset" and m sc
    by (force simp: zadd_def)
  show ?thesis
    using z
    by (auto simp: requeue_for_retry_def move_to_dlq_def lpush_def Let_def
        split: sum.splits)
qed

lemma requeue_for_retry_queue_update:
  "requeue_for_retry cfg now queued err (r\<lparr>queue_list := xs\<rparr>) =
     (fst (requeue_for_retry cfg now queued err r),
      fst (snd (requeue_for_retry cfg now queued err r)),
      (snd (snd (requeue_for_retry cfg now queued err r)))\<lparr>queue_list := xs\<rparr>)"
  by (simp add: requeue_for_retry_def move_to_dlq_def Let_def split: sum.splits)

lemma requeue_all_Nil:
  "requeue_all cfg [] r = r"
  by (simp add: requeue_all_def)

lemma requeue_all_Cons:
  "requeue_all cfg (f # fs) r =
     requeue_all cfg fs
       (snd (snd (requeue_for_retry cfg (snd (snd f)) (fst f) (fst (snd f)) r)))"
  by (simp add: requeue_all_def)

lemma requeue_all_append:
  "requeue_all cfg (fs @ gs) r = requeue_all cfg gs (requeue_all cfg fs r)"
  by (simp add: requeue_all_def)

lemma requeue_all_queue_list:
  "queue_list (requeue_all cfg fs r) = queue_list r"
  by (induction fs arbitrary: r) (simp_all add: requeue_all_Nil requeue_all_Cons
      requeue_for_retry_frame)

lemma requeue_all_queue_update:
  "requeue_all cfg fs (r\<lparr>queue_list := xs\<rparr>) = (requeue_all cfg fs r)\<lparr>queue_list := xs\<rparr>"
  by (induction fs arbitrary: r) (simp_all add: requeue_all_Nil requeue_all_Cons
      requeue_for_retry_queue_update)

lemma requeue_all_grows:
  "fst ` set (retry_set r) \<subseteq> fst ` set (retry_set (requeue_all cfg fs r)) \<and>
   set (dlq_list r) \<subseteq> set (dlq_list (requeue_all cfg fs r))"
proof (induction fs arbitrary: r)
  case Nil
  show ?case by (simp add: requeue_all_Nil)
next
  case (Cons f fs)
  show ?case
    unfolding requeue_all_Cons
    using Cons.IH [of "snd (snd (requeue_for_retry cfg (snd (snd f)) (fst f) (fst (snd f)) r))"]
      requeue_for_retry_grows [of r cfg "snd (snd f)" "fst f" "fst (snd f)"]
    by blast
qed

text \<open>Every failure of a list that is requeued is then in the retry set or dead-lettered.\<close>

lemma requeue_all_recorded:
  assumes "failures_ok cfg fs" and "f \<in> set fs"
  shows "(fst f)\<lparr>retry_count := retry_count (fst f) + 1, last_error := Some (fst (snd f)),
                next_retry_at :=
                  Some (snd (snd f) +
                        retry_delay (queue cfg) * 2 ^ nat (retry_count (fst f)))\<rparr>
           \<in> fst ` set (retry_set (requeue_all cfg fs r)) \<union>
              set (dlq_list (requeue_all cfg fs r))"
  using assms
proof (induction fs arbitrary: r)
  case Nil
  then show ?case by simp
next
  case (Cons g fs)
  define r1 where "r1 = snd (snd (requeue_for_retry cfg (snd (snd g)) (fst g) (fst (snd g)) r))"
  have step: "requeue_all cfg (g # fs) r = requeue_all cfg fs r1"
    by (simp add: requeue_all_Cons r1_def)
  have okg: "0 \<le> retry_count (fst g) \<and>
      retry_time_ok cfg (snd (snd g)) (retry_count (fst g) + 1)"
    and okfs: "failures_ok cfg fs"
    using Cons.prems(1) by (simp_all add: failures_ok_def)
  show ?case
  proof (cases "f = g")
    case True
    have "(fst g)\<lparr>retry_count := retry_count (fst g) + 1, last_error := Some (fst (snd g)),
                next_retry_at :=
                  Some (snd (snd g) +
                        retry_delay (queue cfg) * 2 ^ nat (retry_count (fst g)))\<rparr>
        \<in> fst ` set (retry_set r1) \<union> set (dlq_list r1)"
      using requeue_for_retry_ok [of "fst g" cfg "snd (snd g)" "fst (snd g)" r] okg
      unfolding r1_def by (metis UnCI)
    with requeue_all_grows [of r1 cfg fs] show ?thesis
      unfolding step True by blast
  next
    case False
    with Cons.prems(2) have "f \<in> set fs"
      by simp
    from Cons.IH [OF okfs this, of r1] show ?thesis
      unfolding step .
  qed
qed

lemma failures_append:
  "failures env w (xs @ ys) = failures env w xs @ failures env (world_after env w xs) ys"
  by (induction xs arbitrary: w) (auto split: prod.splits sum.splits)

lemma world_after_append:
  "world_after env w (xs @ ys) = world_after env (world_after env w xs) ys"
  by (induction xs arbitrary: w) simp_all

lemma failures_ok_append:
  "failures_ok cfg (fs @ gs) = (failures_ok cfg fs \<and> failures_ok cfg gs)"
  by (simp add: failures_ok_def)

text \<open>
  One item: when the send is not cancelled and the retry time of a failure can be
  represented, \<open>_send_email\<close> returns, the world is the one the send left, and the store
  is the old one with the failure, if there is one, requeued.
\<close>

lemma worker_send_email_step:
  assumes "\<forall>w em e. fst (send env w em) = Inl e \<longrightarrow> is_Exception e"
    and "failures_ok cfg (failures env (world s) [q])"
  shows "worker_send_email env cfg q s =
           (None, s\<lparr>world := world_after env (world s) [q],
                    store := requeue_all cfg (failures env (world s) [q]) (store s)\<rparr>)"
proof (cases "send env (world s) (email q)")
  case (fields res em1 w1)
  show ?thesis
  proof (cases res)
    case (Inr result)
    show ?thesis
    proof (cases "is_success result")
      case True
      with fields Inr show ?thesis
        by (simp add: worker_send_email_def requeue_all_Nil)
    next
      case False
      have fl: "failures env (world s) [q] =
          [(q\<lparr>email := em1\<rparr>, str_or (error result) ''Unknown error'', utcnow env w1)]"
        using fields Inr False by simp
      have ok: "0 \<le> retry_count (q\<lparr>email := em1\<rparr>) \<and>
          retry_time_ok cfg (utcnow env w1) (retry_count (q\<lparr>email := em1\<rparr>) + 1)"
        using assms(2) unfolding fl by (simp add: failures_ok_def)
      have none: "fst (requeue_for_retry cfg (utcnow env w1) (q\<lparr>email := em1\<rparr>)
          (str_or (error result) ''Unknown error'') (store s)) = None"
        using requeue_for_retry_ok [of "q\<lparr>email := em1\<rparr>" cfg "utcnow env w1"] ok by blast
      obtain q1 r1 where rq: "requeue_for_retry cfg (utcnow env w1) (q\<lparr>email := em1\<rparr>)
          (str_or (error result) ''Unknown error'') (store s) = (None, q1, r1)"
        using none by (metis fst_conv prod_cases3)
      show ?thesis
        using fields Inr False rq
        by (simp add: worker_send_email_def requeue_all_Cons requeue_all_Nil)
    qed
  next
    case (Inl e)
    with fields assms(1) have ex: "is_Exception e"
      by (metis fst_conv)
    have fl: "failures env (world s) [q] = [(q\<lparr>email := em1\<rparr>, exn_str e, utcnow env w1)]"
      using fields Inl by simp
    have ok: "0 \<le> retry_count (q\<lparr>email := em1\<rparr>) \<and>
        retry_time_ok cfg (utcnow env w1) (retry_count (q\<lparr>email := em1\<rparr>) + 1)"
      using assms(2) unfolding fl by (simp add: failures_ok_def)
    have none: "fst (requeue_for_retry cfg (utcnow env w1) (q\<lparr>email := em1\<rparr>)
        (exn_str e) (store s)) = None"
      using requeue_for_retry_ok [of "q\<lparr>email := em1\<rparr>" cfg "utcnow env w1"] ok by blast
    obtain q1 r1 where rq: "requeue_for_retry cfg (utcnow env w1) (q\<lparr>email := em1\<rparr>)
        (exn_str e) (store s) = (None, q1, r1)"
      using none by (metis fst_conv prod_cases3)
    show ?thesis
      using fields Inl ex rq
      by (simp add: worker_send_email_def send_email_handler_def requeue_all_Cons
          requeue_all_Nil)
  qed
qed

lemma failures_Cons:
  "failures env w (q # qs) =
     failures env w [q] @ failures env (world_after env w [q]) qs"
  using failures_append [of env w "[q]" qs] by simp

lemma retry_loop_run:
  assumes "\<forall>w em e. fst (send env w em) = Inl e \<longrightarrow> is_Exception e"
    and "failures_ok cfg (failures env (world s) qs)"
  shows "retry_loop env cfg qs s =
           (None, s\<lparr>world := world_after env (world s) qs,
                    store := requeue_all cfg (failures env (world s) qs) (store s),
                    worker_log := worker_log s @ map Retrying qs\<rparr>)"
  using assms(2)
proof (induction qs arbitrary: s)
  case Nil
  show ?case by (simp add: requeue_all_Nil)
next
  case (Cons q qs)
  define s0 where "s0 = s\<lparr>worker_log := worker_log s @ [Retrying q]\<rparr>"
  define s1 where "s1 = s0\<lparr>world := world_after env (world s0) [q],
    store := requeue_all cfg (failures env (world s0) [q]) (store s0)\<rparr>"
  have w0: "world s0 = world s" and st0: "store s0 = store s"
    by (simp_all add: s0_def)
  have ok1: "failures_ok cfg (failures env (world s0) [q])"
    and ok2: "failures_ok cfg (failures env (world s1) qs)"
    using Cons.prems unfolding failures_Cons [of env "world s" q qs]
    by (simp_all add: failures_ok_append w0 s1_def)
  have one: "worker_send_email env cfg q s0 = (None, s1)"
    unfolding s1_def using assms(1) ok1 by (rule worker_send_email_step)
  have step: "retry_loop env cfg (q # qs) s = retry_loop env cfg qs s1"
    using one by (simp add: s0_def [symmetric])
  show ?case
    unfolding step Cons.IH [OF ok2] failures_Cons [of env "world s" q qs]
    by (simp add: s1_def s0_def requeue_all_append)
qed

lemma main_loop_run:
  assumes "\<forall>w em e. fst (send env w em) = Inl e \<longrightarrow> is_Exception e"
    and "failures_ok cfg (failures env (world s) (take n (rev (queue_list (store s)))))"
  shows "main_loop env cfg n s =
           (None,
            s\<lparr>world := world_after env (world s) (take n (rev (queue_list (store s)))),
              store :=
                requeue_all cfg (failures env (world s) (take n (rev (queue_list (store s)))))
                  ((store s)\<lparr>queue_list :=
                      take (length (queue_list (store s)) - n) (queue_list (store s))\<rparr>),
              worker_log :=
                worker_log s @ map Dequeued (take n (rev (queue_list (store s))))\<rparr>)"
  using assms(2)
proof (induction n arbitrary: s)
  case 0
  show ?case by (simp add: requeue_all_Nil)
next
  case (Suc n)
  show ?case
  proof (cases "queue_list (store s) = []")
    case True
    then show ?thesis
      by (simp add: dequeue_def rpop_def requeue_all_Nil)
  next
    case False
    then obtain xs q where xs: "queue_list (store s) = xs @ [q]"
      by (metis append_butlast_last_id)
    have tk: "take (Suc n) (rev (queue_list (store s))) = q # take n (rev xs)"
      by (simp add: xs)
    have d: "dequeue (store s) = (Some q, (store s)\<lparr>queue_list := xs\<rparr>)"
      by (simp add: dequeue_def rpop_def xs)
    define s0 where "s0 = s\<lparr>store := (store s)\<lparr>queue_list := xs\<rparr>,
      worker_log := worker_log s @ [Dequeued q]\<rparr>"
    define s1 where "s1 = s0\<lparr>world := world_after env (world s0) [q],
      store := requeue_all cfg (failures env (world s0) [q]) (store s0)\<rparr>"
    have w0: "world s0 = world s"
      by (simp add: s0_def)
    have q1: "queue_list (store s1) = xs"
      by (simp add: s1_def s0_def requeue_all_queue_list)
    have ok1: "failures_ok cfg (failures env (world s0) [q])"
      and ok2: "failures_ok cfg (failures env (world s1) (take n (rev (queue_list (store s1)))))"
      using Suc.prems unfolding tk failures_Cons [of env "world s" q "take n (rev xs)"] q1
      by (simp_all add: failures_ok_append w0 s1_def)
    have one: "worker_send_email env cfg q s0 = (None, s1)"
      unfolding s1_def using assms(1) ok1 by (rule worker_send_email_step)
    have step: "main_loop env cfg (Suc n) s = main_loop env cfg n s1"
      using one d by (simp add: s0_def [symmetric])
    have len: "length xs - n = length (queue_list (store s)) - Suc n"
      by (simp add: xs)
    have tk2: "take (length xs - n) xs =
        take (length (queue_list (store s)) - Suc n) (queue_list (store s))"
      by (simp add: xs)
    show ?thesis
      unfolding step Suc.IH [OF ok2] tk failures_Cons [of env "world s" q "take n (rev xs)"] q1
      by (simp add: s1_def s0_def requeue_all_append requeue_all_queue_update tk2 [symmetric])
  qed
qed

text \<open>
  C6, as stated, fails. With \<open>retry_delay = 10^12\<close> seconds the retry time of a first
  failure lies beyond the last \<open>datetime\<close>, and \<open>requeue_for_retry\<close> raises
  \<open>OverflowError\<close>, in the \<open>try\<close> block of \<open>_send_email\<close> and again in its handler. At
  clock value 100 the three due entries R1, R2 and R3 are removed from the retry set, the
  send of R1 is refused and the exception ends the cycle: R2 and R3 are not processed,
  the three are in no segment, and no item is dequeued. At clock value 0 no entry is due,
  A is dequeued, its send is refused, and the cycle ends with one item dequeued and two
  left in the main list.
\<close>

theorem poll_cycle_aborted_counterexample:
  "fst (poll_cycle (sender_env ext_refused (with_retry_delay 1000000000000 cfg0))
          (with_retry_delay 1000000000000 cfg0) (sys0 store3 100)) = Continue \<and>
   worker_log (snd (poll_cycle (sender_env ext_refused (with_retry_delay 1000000000000 cfg0))
          (with_retry_delay 1000000000000 cfg0) (sys0 store3 100))) =
     [Retrying (item ''R1'' 1)] \<and>
   store (snd (poll_cycle (sender_env ext_refused (with_retry_delay 1000000000000 cfg0))
          (with_retry_delay 1000000000000 cfg0) (sys0 store3 100))) =
     \<lparr>queue_list = [item ''C'' 6, item ''B'' 5, item ''A'' 4],
      retry_set = [(item ''R4'' 7, 500)], dlq_list = []\<rparr> \<and>
   fst (poll_cycle (sender_env ext_refused (with_retry_delay 1000000000000 cfg0))
          (with_retry_delay 1000000000000 cfg0) (sys0 store3 0)) = Continue \<and>
   worker_log (snd (poll_cycle (sender_env ext_refused (with_retry_delay 1000000000000 cfg0))
          (with_retry_delay 1000000000000 cfg0) (sys0 store3 0))) =
     [Dequeued (item ''A'' 4)] \<and>
   store (snd (poll_cycle (sender_env ext_refused (with_retry_delay 1000000000000 cfg0))
          (with_retry_delay 1000000000000 cfg0) (sys0 store3 0))) =
     store3\<lparr>queue_list := [item ''C'' 6, item ''B'' 5]\<rparr>"
proof -
  define cfg where "cfg = with_retry_delay 1000000000000 cfg0"
  define env where "env = sender_env ext_refused cfg"
  have snd: "send env (new_sender cfg0, t) (mail x) =
      (Inr \<lparr>status = FAILED, message_id = None, error = Some ''refused'', sent_at = None,
           result_retry_count = 0, result_smtp_account = Some ''default''\<rparr>,
       mail x,
       (\<lparr>limiter = Some \<lparr>max_per_hour = 100, max_per_minute = None,
           hourly_timestamps = [t], minute_timestamps = []\<rparr>\<rparr>, t))" for t x
    by (simp add: env_def cfg_def with_retry_delay_def sender_env_def send_email_def
        send_guarded_def send_attempt_def get_smtp_account_def new_sender_def acquire_def
        new_rate_limiter_def cleanup_timestamps_def record_send_def truthy_int_def
        truthy_str_def str_or_def cfg0_def mail_def ext_refused_def ext_ok_def Let_def)
  have now: "utcnow env (w, t) = t" for w t
    by (simp add: env_def sender_env_def)
  have rq: "requeue_for_retry cfg t q err r =
      (Some (OverflowError ''date value out of range''),
       q\<lparr>retry_count := retry_count q + 1, last_error := Some err\<rparr>, r)"
    if "0 \<le> t" "t \<le> 100" "0 \<le> retry_count q" "retry_count q \<le> 1" for t q err r
  proof -
    have "retry_count q = 0 \<or> retry_count q = 1"
      using that(3,4) by arith
    then show ?thesis
      using that(1,2)
      by (auto simp: requeue_for_retry_def backoff_delay_def add_seconds_def cfg_def
          with_retry_delay_def cfg0_def datetime_max_def datetime_min_def Let_def)
  qed
  have ws: "worker_send_email env cfg (item x k) \<lparr>store = r, world = (new_sender cfg0, t),
        worker_log = l\<rparr> =
      (Some (OverflowError ''date value out of range''),
       \<lparr>store = r,
        world = (\<lparr>limiter = Some \<lparr>max_per_hour = 100, max_per_minute = None,
                   hourly_timestamps = [t], minute_timestamps = []\<rparr>\<rparr>, t),
        worker_log = l\<rparr>)"
    if "0 \<le> t" "t \<le> 100" for x k r t l
  proof -
    have e: "email (item x k) = mail x"
      by (simp add: item_def)
    have c0: "retry_count ((item x k)\<lparr>email := mail x\<rparr>) = 0"
      by (simp add: item_def)
    show ?thesis
      unfolding worker_send_email_def
      using that
      by (simp add: e snd now is_success_def rq c0 send_email_handler_def)
  qed
  have due: "get_retry_emails 100 store3 =
      ([item ''R1'' 1, item ''R2'' 2, (item ''R3'' 3)\<lparr>retry_count := 2\<rparr>],
       store3\<lparr>retry_set := [(item ''R4'' 7, 500)]\<rparr>)"
    by (simp add: get_retry_emails_eq get_retry_read_def get_retry_remove_def
        zrangebyscore_def zremrangebyscore_def in_score_range_def store3_def)
  have r100: "process_retry_queue env cfg (sys0 store3 100) =
      (Some (OverflowError ''date value out of range''),
       \<lparr>store = store3\<lparr>retry_set := [(item ''R4'' 7, 500)]\<rparr>,
        world = (\<lparr>limiter = Some \<lparr>max_per_hour = 100, max_per_minute = None,
                   hourly_timestamps = [100], minute_timestamps = []\<rparr>\<rparr>, 100),
        worker_log = [Retrying (item ''R1'' 1)]\<rparr>)"
    by (simp add: process_retry_queue_def timestamp_def datetime_min_def sys0_def now due ws)
  have p100: "poll_cycle env cfg (sys0 store3 100) =
      (Continue,
       \<lparr>store = store3\<lparr>retry_set := [(item ''R4'' 7, 500)]\<rparr>,
        world = sleep env (worker_poll_interval (queue cfg))
          (\<lparr>limiter = Some \<lparr>max_per_hour = 100, max_per_minute = None,
              hourly_timestamps = [100], minute_timestamps = []\<rparr>\<rparr>, 100),
        worker_log = [Retrying (item ''R1'' 1)]\<rparr>)"
    by (simp add: poll_cycle_def r100 poll_handler_def)
  have none: "get_retry_emails 0 store3 = ([], store3)"
    by (simp add: get_retry_emails_def get_retry_read_def zrangebyscore_def
        in_score_range_def store3_def Let_def)
  have r0: "process_retry_queue env cfg (sys0 store3 0) = (None, sys0 store3 0)"
    by (simp add: process_retry_queue_def timestamp_def datetime_min_def sys0_def now none)
  have d: "dequeue store3 =
      (Some (item ''A'' 4), store3\<lparr>queue_list := [item ''C'' 6, item ''B'' 5]\<rparr>)"
    by (simp add: dequeue_def rpop_def store3_def)
  have bs: "nat (batch_size (queue cfg)) = 2"
    by (simp add: cfg_def with_retry_delay_def cfg0_def)
  have m0: "process_main_queue env cfg (sys0 store3 0) =
      (Some (OverflowError ''date value out of range''),
       \<lparr>store = store3\<lparr>queue_list := [item ''C'' 6, item ''B'' 5]\<rparr>,
        world = (\<lparr>limiter = Some \<lparr>max_per_hour = 100, max_per_minute = None,
                   hourly_timestamps = [0], minute_timestamps = []\<rparr>\<rparr>, 0),
        worker_log = [Dequeued (item ''A'' 4)]\<rparr>)"
    by (simp add: process_main_queue_def bs numeral_2_eq_2 sys0_def d ws)
  have p0: "poll_cycle env cfg (sys0 store3 0) =
      (Continue,
       \<lparr>store = store3\<lparr>queue_list := [item ''C'' 6, item ''B'' 5]\<rparr>,
        world = sleep env (worker_poll_interval (queue cfg))
          (\<lparr>limiter = Some \<lparr>max_per_hour = 100, max_per_minute = None,
              hourly_timestamps = [0], minute_timestamps = []\<rparr>\<rparr>, 0),
        worker_log = [Dequeued (item ''A'' 4)]\<rparr>)"
    by (simp add: poll_cycle_def r0 m0 poll_handler_def)
  have st: "store3\<lparr>retry_set := [(item ''R4'' 7, 500)]\<rparr> =
      \<lparr>queue_list = [item ''C'' 6, item ''B'' 5, item ''A'' 4],
       retry_set = [(item ''R4'' 7, 500)], dlq_list = []\<rparr>"
    by (simp add: store3_def)
  show ?thesis
    unfolding cfg_def [symmetric] env_def [symmetric] p100 p0 by (simp add: st)
qed

text \<open>
  C6, amended. Take a poll cycle in which no send is cancelled, the clock value has a
  timestamp, the due entries of the retry set (those with a score in \<open>[0, now]\<close>) have
  distinct scores, and the retry time of every failed delivery can be represented. Then
  the cycle goes on to the next one, and: every due entry, however many, is removed from
  the retry set and taken up, in the order of the scores, before the first item is
  dequeued from the main list; the main list loses its \<open>batch_size\<close> oldest items, or all
  of them when it holds fewer, so \<open>batch_size\<close> bounds only the dequeues; each of these
  items is handed to the sender, in that order; each one whose send did not succeed is
  then in the retry set or on the dead-letter list, with its count incremented, the
  error text and the retry time. With three items in the main list and \<open>batch_size = 2\<close>,
  two are dequeued and one is left.
\<close>

theorem poll_cycle_retries_first:
  assumes "\<forall>w em e. fst (send env w em) = Inl e \<longrightarrow> is_Exception e"
    and "datetime_min + 86400 \<le> utcnow env (world s)"
    and "distinct (map snd (filter (in_score_range 0 (utcnow env (world s)))
                                     (retry_set (store s))))"
    and "due = get_retry_read (utcnow env (world s)) (store s)"
    and "popped = take (nat (batch_size (queue cfg))) (rev (queue_list (store s)))"
    and "failures_ok cfg (failures env (world s) (due @ popped))"
    and "poll_cycle env cfg s = (ctl, s')"
  shows "ctl = Continue \<and>
         worker_log s' = worker_log s @ map Retrying due @ map Dequeued popped \<and>
         world s' =
           sleep env (worker_poll_interval (queue cfg))
             (world_after env (world s) (due @ popped)) \<and>
         store s' =
           requeue_all cfg (failures env (world s) (due @ popped))
             ((store s)\<lparr>queue_list :=
                  take (length (queue_list (store s)) - nat (batch_size (queue cfg)))
                    (queue_list (store s)),
                retry_set :=
                  zremrangebyscore 0 (utcnow env (world s)) (retry_set (store s))\<rparr>) \<and>
         queue_list (store s') =
           take (length (queue_list (store s)) - nat (batch_size (queue cfg)))
             (queue_list (store s)) \<and>
         (\<forall>f \<in> set (failures env (world s) (due @ popped)).
            (fst f)\<lparr>retry_count := retry_count (fst f) + 1,
                    last_error := Some (fst (snd f)),
                    next_retry_at :=
                      Some (snd (snd f) +
                            retry_delay (queue cfg) * 2 ^ nat (retry_count (fst f)))\<rparr>
              \<in> fst ` set (retry_set (store s')) \<union> set (dlq_list (store s'))) \<and>
         (length (queue_list (store s)) = 3 \<and> batch_size (queue cfg) = 2 \<longrightarrow>
            length popped = 2 \<and> length (queue_list (store s')) = 1)"
proof -
  define now where "now = utcnow env (world s)"
  define n where "n = nat (batch_size (queue cfg))"
  define F1 where "F1 = failures env (world s) due"
  define w1 where "w1 = world_after env (world s) due"
  define F2 where "F2 = failures env w1 popped"
  define r1 where "r1 = get_retry_remove now (store s)"
  define X where "X = take (length (queue_list (store s)) - n) (queue_list (store s))"
  have F: "failures env (world s) (due @ popped) = F1 @ F2"
    by (simp add: failures_append F1_def F2_def w1_def)
  have ok1: "failures_ok cfg F1" and ok2: "failures_ok cfg F2"
    using assms(6) unfolding F by (simp_all add: failures_ok_append)
  have ts: "timestamp (utcnow env (world s)) = Inr now"
    using assms(2) by (simp add: timestamp_def now_def)
  define s0 where "s0 = s\<lparr>store := r1\<rparr>"
  have g: "get_retry_emails now (store s) = (due, r1)"
    by (simp add: get_retry_emails_eq assms(4) r1_def now_def)
  define s1 where "s1 = s0\<lparr>world := w1, store := requeue_all cfg F1 r1,
    worker_log := worker_log s @ map Retrying due\<rparr>"
  have ok1': "failures_ok cfg (failures env (world s0) due)"
    using ok1 by (simp add: s0_def F1_def)
  have a: "process_retry_queue env cfg s = (None, s1)"
    unfolding process_retry_queue_def ts
    using retry_loop_run [OF assms(1) ok1']
    by (simp add: g s0_def [symmetric] s1_def)
      (simp add: s0_def w1_def F1_def)
  have q1: "queue_list (store s1) = queue_list (store s)"
    by (simp add: s1_def requeue_all_queue_list r1_def get_retry_remove_def)
  have pw: "world s1 = w1"
    by (simp add: s1_def)
  have ok2': "failures_ok cfg (failures env (world s1) (take n (rev (queue_list (store s1)))))"
    using ok2 by (simp add: q1 pw F2_def assms(5) n_def)
  define s2 where "s2 = s1\<lparr>world := world_after env w1 popped,
    store := requeue_all cfg F2 ((store s1)\<lparr>queue_list := X\<rparr>),
    worker_log := worker_log s1 @ map Dequeued popped\<rparr>"
  have b: "process_main_queue env cfg s1 = (None, s2)"
    unfolding process_main_queue_def n_def [symmetric]
    using main_loop_run [OF assms(1) ok2']
    by (simp add: q1 pw s2_def X_def F2_def assms(5) n_def)
  have c: "poll_cycle env cfg s =
      (Continue, s2\<lparr>world := sleep env (worker_poll_interval (queue cfg)) (world s2)\<rparr>)"
    by (simp add: poll_cycle_def a b)
  with assms(7) have ctl: "ctl = Continue"
    and s': "s' = s2\<lparr>world := sleep env (worker_poll_interval (queue cfg)) (world s2)\<rparr>"
    by simp_all
  have lg: "worker_log s' = worker_log s @ map Retrying due @ map Dequeued popped"
    by (simp add: s' s2_def s1_def)
  have wd: "world s' = sleep env (worker_poll_interval (queue cfg))
      (world_after env (world s) (due @ popped))"
    by (simp add: s' s2_def world_after_append w1_def)
  have st: "store s' = requeue_all cfg (F1 @ F2)
      ((store s)\<lparr>queue_list := X,
         retry_set := zremrangebyscore 0 now (retry_set (store s))\<rparr>)"
  proof -
    have eq: "(store s)\<lparr>queue_list := X,
        retry_set := zremrangebyscore 0 now (retry_set (store s))\<rparr> = r1\<lparr>queue_list := X\<rparr>"
      by (simp add: r1_def get_retry_remove_def)
    have "store s' = requeue_all cfg F2 ((requeue_all cfg F1 r1)\<lparr>queue_list := X\<rparr>)"
      by (simp add: s' s2_def s1_def s0_def)
    then show ?thesis
      unfolding eq by (simp add: requeue_all_append requeue_all_queue_update)
  qed
  have ql: "queue_list (store s') = X"
    unfolding st by (simp add: requeue_all_queue_list)
  have rec: "\<forall>f \<in> set (F1 @ F2).
      (fst f)\<lparr>retry_count := retry_count (fst f) + 1, last_error := Some (fst (snd f)),
              next_retry_at :=
                Some (snd (snd f) + retry_delay (queue cfg) * 2 ^ nat (retry_count (fst f)))\<rparr>
        \<in> fst ` set (retry_set (store s')) \<union> set (dlq_list (store s'))"
    unfolding st using requeue_all_recorded [of cfg "F1 @ F2"] assms(6) [unfolded F]
    by blast
  have three: "length popped = 2 \<and> length (queue_list (store s')) = 1"
    if "length (queue_list (store s)) = 3 \<and> batch_size (queue cfg) = 2"
    using that by (simp add: ql X_def n_def assms(5))
  show ?thesis
    unfolding F using ctl lg wd st ql rec three
    by (simp add: X_def n_def now_def)
qed

theorem poll_cycle_retries_first_witness:
  "fst (poll_cycle (sender_env ext_some cfg0) cfg0 (sys0 store3 100)) = Continue \<and>
   worker_log (snd (poll_cycle (sender_env ext_some cfg0) cfg0 (sys0 store3 100))) =
     [Retrying (item ''R1'' 1), Retrying (item ''R2'' 2),
      Retrying ((item ''R3'' 3)\<lparr>retry_count := 2\<rparr>),
      Dequeued (item ''A'' 4), Dequeued (item ''B'' 5)] \<and>
   store (snd (poll_cycle (sender_env ext_some cfg0) cfg0 (sys0 store3 100))) =
     \<lparr>queue_list = [item ''C'' 6],
      retry_set =
        [((item ''B'' 5)\<lparr>retry_count := 1, last_error := Some ''refused'',
                         next_retry_at := Some 400\<rparr>, 400),
         ((item ''R2'' 2)\<lparr>retry_count := 1, last_error := Some ''refused'',
                          next_retry_at := Some 400\<rparr>, 400),
         (item ''R4'' 7, 500)],
      dlq_list =
        [(item ''R3'' 3)\<lparr>retry_count := 3, last_error := Some ''refused'',
                         next_retry_at := Some 1300\<rparr>]\<rparr> \<and>
   snd (world (snd (poll_cycle (sender_env ext_some cfg0) cfg0 (sys0 store3 100)))) = 101"
proof -
  define env where "env = sender_env ext_some cfg0"
  define L where "L ts = \<lparr>limiter = Some \<lparr>max_per_hour = 100, max_per_minute = None,
    hourly_timestamps = ts, minute_timestamps = []\<rparr>\<rparr>" for ts :: "time list"
  define sent where "sent = \<lparr>status = SENT, message_id = Some ''id-1'', error = None,
    sent_at = Some 100, result_retry_count = 0, result_smtp_account = Some ''default''\<rparr>"
  define failed where "failed = \<lparr>status = FAILED, message_id = None, error = Some ''refused'',
    sent_at = None, result_retry_count = 0, result_smtp_account = Some ''default''\<rparr>"
  note ev = env_def L_def sent_def failed_def sender_env_def send_email_def send_guarded_def
    send_attempt_def get_smtp_account_def acquire_def cleanup_timestamps_def record_send_def
    truthy_int_def truthy_str_def str_or_def cfg0_def mail_def ext_some_def ext_ok_def Let_def
    hour_def minute_def
  have w0: "world (sys0 store3 100) = (L [], 100)"
    by (simp add: sys0_def L_def new_sender_def new_rate_limiter_def cfg0_def)
  have s1: "send env (L [], 100) (mail ''R1'') = (Inr sent, mail ''R1'', (L [100], 100))"
    by (simp add: ev)
  have s2: "send env (L [100], 100) (mail ''R2'') =
      (Inr failed, mail ''R2'', (L [100, 100], 100))"
    by (simp add: ev)
  have s3: "send env (L [100, 100], 100) (mail ''R3'') =
      (Inr failed, mail ''R3'', (L [100, 100, 100], 100))"
    by (simp add: ev)
  have s4: "send env (L [100, 100, 100], 100) (mail ''A'') =
      (Inr sent, mail ''A'', (L [100, 100, 100, 100], 100))"
    by (simp add: ev)
  have s5: "send env (L [100, 100, 100, 100], 100) (mail ''B'') =
      (Inr failed, mail ''B'', (L [100, 100, 100, 100, 100], 100))"
    by (simp add: ev)
  have ok: "is_success sent" "\<not> is_success failed" "error failed = Some ''refused''"
    by (simp_all add: is_success_def sent_def failed_def)
  have em: "email (item x k) = mail x" "email ((item x k)\<lparr>retry_count := c\<rparr>) = mail x"
    "(item x k)\<lparr>email := mail x\<rparr> = item x k" for x k c
    by (simp_all add: item_def)
  have now: "utcnow env (w, t) = t" for w :: email_sender and t
    by (simp add: env_def sender_env_def)
  define qs where "qs = [item ''R1'' 1, item ''R2'' 2, (item ''R3'' 3)\<lparr>retry_count := 2\<rparr>,
    item ''A'' 4, item ''B'' 5]"
  have fl: "failures env (L [], 100) qs =
      [(item ''R2'' 2, ''refused'', 100),
       ((item ''R3'' 3)\<lparr>retry_count := 2\<rparr>, ''refused'', 100),
       (item ''B'' 5, ''refused'', 100)]"
    by (simp add: qs_def em s1 s2 s3 s4 s5 ok now str_or_def)
  have wa: "world_after env (L [], 100) qs = (L [100, 100, 100, 100, 100], 100)"
    by (simp add: qs_def em s1 s2 s3 s4 s5)
  have due: "get_retry_read (utcnow env (world (sys0 store3 100))) (store (sys0 store3 100)) =
      [item ''R1'' 1, item ''R2'' 2, (item ''R3'' 3)\<lparr>retry_count := 2\<rparr>]"
    by (simp add: get_retry_read_def zrangebyscore_def in_score_range_def w0 now sys0_def
        store3_def)
  have pop: "take (nat (batch_size (queue cfg0))) (rev (queue_list (store (sys0 store3 100)))) =
      [item ''A'' 4, item ''B'' 5]"
    by (simp add: cfg0_def sys0_def store3_def)
  have all: "get_retry_read (utcnow env (world (sys0 store3 100))) (store (sys0 store3 100)) @
      take (nat (batch_size (queue cfg0))) (rev (queue_list (store (sys0 store3 100)))) = qs"
    unfolding due pop by (simp add: qs_def)
  have a: "\<forall>name m e. jinja_render ext_some name m = Inl e \<longrightarrow> is_Exception e"
    by (simp add: ext_some_def ext_ok_def)
  have b: "\<forall>m acct e. build_mime_message ext_some m acct = Inl e \<longrightarrow> is_Exception e"
    by (simp add: ext_some_def ext_ok_def)
  have c: "\<forall>mime m acct e. send_smtp ext_some mime m acct = Inl e \<longrightarrow> is_Exception e"
    by (auto simp: ext_some_def ext_ok_def)
  have h1: "\<forall>w em e. fst (send env w em) = Inl e \<longrightarrow> is_Exception e"
    unfolding env_def using sender_env_raises [OF a b c] by blast
  have h2: "datetime_min + 86400 \<le> utcnow env (world (sys0 store3 100))"
    by (simp add: w0 now datetime_min_def)
  have h3: "distinct (map snd (filter (in_score_range 0 (utcnow env (world (sys0 store3 100))))
      (retry_set (store (sys0 store3 100)))))"
    by (simp add: w0 now in_score_range_def sys0_def store3_def)
  have h6: "failures_ok cfg0 (failures env (world (sys0 store3 100))
      (get_retry_read (utcnow env (world (sys0 store3 100))) (store (sys0 store3 100)) @
       take (nat (batch_size (queue cfg0))) (rev (queue_list (store (sys0 store3 100))))))"
    unfolding all unfolding w0 fl
    by (simp add: failures_ok_def retry_time_ok_def backoff_delay_def datetime_min_def
        datetime_max_def cfg0_def item_def)
  have p: "poll_cycle env cfg0 (sys0 store3 100) =
      (fst (poll_cycle env cfg0 (sys0 store3 100)), snd (poll_cycle env cfg0 (sys0 store3 100)))"
    by simp
  have rq: "requeue_all cfg0
      [(item ''R2'' 2, ''refused'', 100),
       ((item ''R3'' 3)\<lparr>retry_count := 2\<rparr>, ''refused'', 100),
       (item ''B'' 5, ''refused'', 100)]
      \<lparr>queue_list = [item ''C'' 6], retry_set = [(item ''R4'' 7, 500)], dlq_list = []\<rparr> =
     \<lparr>queue_list = [item ''C'' 6],
      retry_set =
        [((item ''B'' 5)\<lparr>retry_count := 1, last_error := Some ''refused'',
                         next_retry_at := Some 400\<rparr>, 400),
         ((item ''R2'' 2)\<lparr>retry_count := 1, last_error := Some ''refused'',
                          next_retry_at := Some 400\<rparr>, 400),
         (item ''R4'' 7, 500)],
      dlq_list =
        [(item ''R3'' 3)\<lparr>retry_count := 3, last_error := Some ''refused'',
                         next_retry_at := Some 1300\<rparr>]\<rparr>"
    by (simp add: requeue_all_def requeue_for_retry_def backoff_delay_def add_seconds_def
        timestamp_def move_to_dlq_def lpush_def zadd_def datetime_min_def datetime_max_def
        cfg0_def item_def mail_def Let_def)
  have st0: "(store (sys0 store3 100))\<lparr>queue_list :=
        take (length (queue_list (store (sys0 store3 100))) - nat (batch_size (queue cfg0)))
          (queue_list (store (sys0 store3 100))),
      retry_set := zremrangebyscore 0 (utcnow env (world (sys0 store3 100)))
        (retry_set (store (sys0 store3 100)))\<rparr> =
      \<lparr>queue_list = [item ''C'' 6], retry_set = [(item ''R4'' 7, 500)], dlq_list = []\<rparr>"
    by (simp add: w0 now zremrangebyscore_def in_score_range_def sys0_def store3_def cfg0_def)
  have wl: "worker_log (sys0 store3 100) = []"
    by (simp add: sys0_def)
  have sl: "sleep env (worker_poll_interval (queue cfg0)) (L [100, 100, 100, 100, 100], 100) =
      (L [100, 100, 100, 100, 100], 101)"
    by (simp add: env_def sender_env_def cfg0_def)
  from poll_cycle_retries_first [OF h1 h2 h3 refl refl h6 p]
  have "fst (poll_cycle env cfg0 (sys0 store3 100)) = Continue"
    and "worker_log (snd (poll_cycle env cfg0 (sys0 store3 100))) =
      map Retrying [item ''R1'' 1, item ''R2'' 2, (item ''R3'' 3)\<lparr>retry_count := 2\<rparr>] @
      map Dequeued [item ''A'' 4, item ''B'' 5]"
    and "world (snd (poll_cycle env cfg0 (sys0 store3 100))) =
      (L [100, 100, 100, 100, 100], 101)"
    and "store (snd (poll_cycle env cfg0 (sys0 store3 100))) =
      \<lparr>queue_list = [item ''C'' 6],
       retry_set =
         [((item ''B'' 5)\<lparr>retry_count := 1, last_error := Some ''refused'',
                          next_retry_at := Some 400\<rparr>, 400),
          ((item ''R2'' 2)\<lparr>retry_count := 1, last_error := Some ''refused'',
                           next_retry_at := Some 400\<rparr>, 400),
          (item ''R4'' 7, 500)],
       dlq_list =
         [(item ''R3'' 3)\<lparr>retry_count := 3, last_error := Some ''refused'',
                          next_retry_at := Some 1300\<rparr>]\<rparr>"
    unfolding all st0 unfolding due pop unfolding w0 unfolding fl wa unfolding rq sl wl
    by simp_all
  then show ?thesis
    unfolding env_def by simp
qed

text \<open>
  C7. \<open>stop\<close> on a worker that is not running returns the worker as it is: no field
  changes and no operation is added to the list of operations performed. A worker is
  not running after \<open>stop\<close>, so a second \<open>stop\<close> changes nothing.
\<close>

theorem stop_idempotent:
  "(\<not> running wk \<longrightarrow> stop env cfg wk = wk) \<and>
   \<not> running (stop env cfg wk) \<and>
   stop env cfg (stop env cfg wk) = stop env cfg wk \<and>
   ops (stop env cfg (stop env cfg wk)) = ops (stop env cfg wk)"
proof -
  have a: "stop env cfg w = w" if "\<not> running w" for w :: "'a email_worker"
    using that by (simp add: stop_def)
  have b: "\<not> running (stop env cfg wk)"
    by (simp add: stop_def queue_disconnect_def Let_def split: option.splits prod.splits)
  from a [OF b] a [of wk] b show ?thesis
    by simp
qed

theorem stop_idempotent_witness:
  "stop (sender_env ext_ok cfg0) cfg0 (worker0 False (Some Done)) = worker0 False (Some Done) \<and>
   ops (stop (sender_env ext_ok cfg0) cfg0
          (stop (sender_env ext_ok cfg0) cfg0 (worker0 True (Some Sleeping)))) =
     [LogInfo ''Stopping email worker...'', TaskCancel, TaskAwait, RedisClose,
      PoolDisconnect, LogInfo ''Disconnected from Redis'', LogInfo ''Email worker stopped'']"
proof -
  have nr: "\<not> running (worker0 False (Some Done))"
    by (simp add: worker0_def)
  have first: "ops (stop (sender_env ext_ok cfg0) cfg0 (worker0 True (Some Sleeping))) =
     [LogInfo ''Stopping email worker...'', TaskCancel, TaskAwait, RedisClose,
      PoolDisconnect, LogInfo ''Disconnected from Redis'', LogInfo ''Email worker stopped'']"
    by (simp add: stop_def queue_disconnect_def cancel_task_def worker0_def Let_def)
  from stop_idempotent [of "worker0 False (Some Done)" "sender_env ext_ok cfg0" cfg0] nr
  have one: "stop (sender_env ext_ok cfg0) cfg0 (worker0 False (Some Done)) =
      worker0 False (Some Done)"
    by blast
  from stop_idempotent [of "worker0 True (Some Sleeping)" "sender_env ext_ok cfg0" cfg0]
  have two: "ops (stop (sender_env ext_ok cfg0) cfg0
          (stop (sender_env ext_ok cfg0) cfg0 (worker0 True (Some Sleeping)))) =
      ops (stop (sender_env ext_ok cfg0) cfg0 (worker0 True (Some Sleeping)))"
    by blast
  from one two first show ?thesis
    by simp
qed





end
